theory Spec2Isabelle
  imports Main "HOL-Library.AList"
begin

section \<open>JavaScript values of a parsed JSON request body\<close>

text \<open>
  The request body is whatever \<open>express.json\<close> parsed. Numbers are kept as integers: the
  handler only asks whether a value is falsy and whether it is a string, and a fraction
  answers both questions as any non-zero integer does. An object is the list of its
  properties, read with \<open>map_of\<close>.
\<close>

datatype jsval =
    JUndefined
  | JNull
  | JBool bool
  | JNum int
  | JStr string
  | JArr "jsval list"
  | JObj "(string \<times> jsval) list"

text \<open>\<open>!v\<close> is \<open>\<not> truthy v\<close>.\<close>

fun truthy :: "jsval \<Rightarrow> bool" where
  "truthy JUndefined = False"
| "truthy JNull = False"
| "truthy (JBool b) = b"
| "truthy (JNum n) = (n \<noteq> 0)"
| "truthy (JStr s) = (s \<noteq> [])"
| "truthy (JArr xs) = True"
| "truthy (JObj fs) = True"

text \<open>\<open>typeof v === "string"\<close>\<close>

fun is_string :: "jsval \<Rightarrow> bool" where
  "is_string (JStr s) = True"
| "is_string v = False"

text \<open>\<open>Array.isArray(v)\<close>\<close>

fun is_array :: "jsval \<Rightarrow> bool" where
  "is_array (JArr xs) = True"
| "is_array v = False"

fun elems :: "jsval \<Rightarrow> jsval list" where
  "elems (JArr xs) = xs"
| "elems v = []"

text \<open>\<open>s.startsWith(p)\<close> on strings.\<close>

definition startsWith :: "string \<Rightarrow> string \<Rightarrow> bool" where
  "startsWith s p = (take (length p) s = p)"

text \<open>\<open>v.startsWith("http")\<close>, evaluated only where \<open>v\<close> is known to be a string.\<close>

fun starts_with_http :: "jsval \<Rightarrow> bool" where
  "starts_with_http (JStr s) = startsWith s ''http''"
| "starts_with_http v = False"

text \<open>\<open>body?.name\<close>: \<open>undefined\<close> on a missing body, a missing property, or a value that is
  not an object.\<close>

fun get_field :: "jsval \<Rightarrow> string \<Rightarrow> jsval" where
  "get_field (JObj fs) k = (case map_of fs k of None \<Rightarrow> JUndefined | Some v \<Rightarrow> v)"
| "get_field v k = JUndefined"

text \<open>\<open>a ?? b\<close>\<close>

definition nullish_or :: "jsval \<Rightarrow> jsval \<Rightarrow> jsval" where
  "nullish_or a b = (if a = JUndefined \<or> a = JNull then b else a)"

section \<open>The process state: scratch files, the result map, and what was done\<close>

text \<open>Every action on the outside world is appended to a trace.\<close>

datatype effect =
    NetFetch string
  | FileWrite string
  | FileUnlink string
  | Spawn string "string list"
  | ResultSet string

record result_meta =
  filePath :: string
  expiresAt :: int

type_synonym result_store = "(string \<times> result_meta) list"

record world =
  files :: "string \<rightharpoonup> string"
  results :: result_store
  trace :: "effect list"

text \<open>\<open>const RESULT_TTL_MS = 30 * 60 * 1000\<close>\<close>

definition RESULT_TTL_MS :: int where
  "RESULT_TTL_MS = 30 * 60 * 1000"

text \<open>The \<open>Map\<close> operations the code uses. A \<open>Map\<close> holds one entry per key; \<open>set\<close> on a
  key that is present replaces the value where it stands.\<close>

definition results_get :: "result_store \<Rightarrow> string \<Rightarrow> result_meta option" where
  "results_get rs ident = map_of rs ident"

definition results_set :: "string \<Rightarrow> result_meta \<Rightarrow> result_store \<Rightarrow> result_store" where
  "results_set ident meta rs = AList.update ident meta rs"

definition results_delete :: "string \<Rightarrow> result_store \<Rightarrow> result_store" where
  "results_delete ident rs = AList.delete ident rs"

text \<open>\<open>try { fs.unlinkSync(p); } catch {}\<close>: the file is gone afterwards, and a missing
  file is not an error.\<close>

definition unlink_quiet :: "string \<Rightarrow> world \<Rightarrow> world" where
  "unlink_quiet p w = w\<lparr>files := (files w)(p := None), trace := trace w @ [FileUnlink p]\<rparr>"

text \<open>
  \<open>cleanupResults\<close>: the loop over \<open>results.entries()\<close>, with \<open>now\<close> read once before it.
  Deleting the entry under the cursor does not disturb the iteration over the others.
\<close>

fun cleanup_loop :: "int \<Rightarrow> (string \<times> result_meta) list \<Rightarrow> world \<Rightarrow> world" where
  "cleanup_loop now [] w = w"
| "cleanup_loop now ((ident, meta) # es) w =
     cleanup_loop now es
       (if expiresAt meta \<le> now
        then (let w1 = unlink_quiet (filePath meta) w
              in w1\<lparr>results := results_delete ident (results w1)\<rparr>)
        else w)"

definition cleanupResults :: "int \<Rightarrow> world \<Rightarrow> world" where
  "cleanupResults now w = cleanup_loop now (results w) w"

text \<open>The sweeps of a time interval, one after the other, at the given clock readings.\<close>

fun sweeps :: "int list \<Rightarrow> world \<Rightarrow> world" where
  "sweeps [] w = w"
| "sweeps (t # ts) w = sweeps ts (cleanupResults t w)"

section \<open>Retrieval: \<open>GET /result/:id\<close>\<close>

datatype get_response =
    NotFound404
  | Stream200 string string string
  | StreamError500 string

text \<open>
  The handler looks the identifier up and pipes the file; it never reads the clock.
  \<open>Stream200 name path bytes\<close> is the attachment \<open>name\<close> streamed from \<open>path\<close>; a file
  that cannot be read ends the response with status 500.
\<close>

definition get_result :: "string \<Rightarrow> world \<Rightarrow> get_response \<times> world" where
  "get_result ident w =
     (case results_get (results w) ident of
        None \<Rightarrow> (NotFound404, w)
      | Some meta \<Rightarrow>
          (case files w (filePath meta) of
             None \<Rightarrow> (StreamError500 (filePath meta), w)
           | Some bytes \<Rightarrow>
               (Stream200 (''final_'' @ ident @ ''.mp4'') (filePath meta) bytes, w)))"

section \<open>Text: template literals and error objects\<close>

text \<open>\<open>`${n}`\<close> for an integer: decimal digits, a minus sign before a negative number.\<close>

definition digit_char :: "nat \<Rightarrow> char" where
  "digit_char d = ''0123456789'' ! d"

fun digits_before :: "nat \<Rightarrow> string \<Rightarrow> string" where
  "digits_before n rest =
     (if n < 10 then digit_char n # rest
      else digits_before (n div 10) (digit_char (n mod 10) # rest))"

declare digits_before.simps [simp del]

definition decimal_nat :: "nat \<Rightarrow> string" where
  "decimal_nat n = digits_before n []"

definition decimal_int :: "int \<Rightarrow> string" where
  "decimal_int i = (if 0 \<le> i then decimal_nat (nat i) else CHR ''-'' # decimal_nat (nat (- i)))"

definition nl :: string where
  "nl = [CHR 0x0A]"

definition sq :: char where
  "sq = CHR 0x27"

definition bs :: char where
  "bs = CHR 0x5C"

text \<open>\<open>`${code}`\<close> for an exit code that may be \<open>null\<close>, and \<open>`${signal}`\<close> likewise.\<close>

fun show_code :: "int option \<Rightarrow> string" where
  "show_code None = ''null''"
| "show_code (Some c) = decimal_int c"

fun show_signal :: "string option \<Rightarrow> string" where
  "show_signal None = ''null''"
| "show_signal (Some s) = s"

text \<open>\<open>err.code || ""\<close>\<close>

fun code_or_empty :: "string option \<Rightarrow> string" where
  "code_or_empty None = []"
| "code_or_empty (Some c) = c"

text \<open>An error object: its \<open>name\<close> and its \<open>message\<close>.\<close>

datatype js_error = JsError string string

text \<open>\<open>e?.message || String(e)\<close>: an error with an empty message prints as its name.\<close>

fun error_text :: "js_error \<Rightarrow> string" where
  "error_text (JsError name msg) = (if msg \<noteq> [] then msg else name)"

text \<open>\<open>String(v)\<close>, as \<open>fetch\<close> and a template literal coerce a value.\<close>

fun join_comma :: "string list \<Rightarrow> string" where
  "join_comma [] = []"
| "join_comma [s] = s"
| "join_comma (s # t # ss) = s @ '','' @ join_comma (t # ss)"

fun js_to_string :: "jsval \<Rightarrow> string" where
  "js_to_string JUndefined = ''undefined''"
| "js_to_string JNull = ''null''"
| "js_to_string (JBool b) = (if b then ''true'' else ''false'')"
| "js_to_string (JNum n) = decimal_int n"
| "js_to_string (JStr s) = s"
| "js_to_string (JArr xs) =
     join_comma (map (\<lambda>x. if x = JUndefined \<or> x = JNull then [] else js_to_string x) xs)"
| "js_to_string (JObj fs) = ''[object Object]''"

section \<open>The subprocess invokers\<close>

text \<open>
  What a child process delivers to its listeners: chunks on its two pipes, an \<open>error\<close>
  event (\<open>err.code\<close>, \<open>err.message\<close>) when it could not be spawned, and \<open>close\<close> with the
  exit code and the signal, one of them \<open>null\<close>.
\<close>

datatype proc_event =
    StdoutData string
  | StderrData string
  | ErrorEvent "string option" string
  | CloseEvent "int option" "string option"

text \<open>
  The promise an invoker returns. \<open>resolve\<close> and \<open>reject\<close> act on a pending promise
  only. \<open>Crashed\<close> is an \<open>error\<close> event that found no listener: the emitter throws it,
  nothing catches it, and the promise is never settled.
\<close>

datatype outcome =
    Pending
  | Resolved
  | Rejected js_error
  | Crashed js_error

fun settle :: "outcome \<Rightarrow> outcome \<Rightarrow> outcome" where
  "settle new Pending = new"
| "settle new old = old"

record capture =
  cap_stdout :: string
  cap_stderr :: string
  cap_promise :: outcome

definition capture0 :: capture where
  "capture0 = \<lparr>cap_stdout = [], cap_stderr = [], cap_promise = Pending\<rparr>"

text \<open>\<open>runFFmpeg\<close> of the current server: the four listeners.\<close>

fun runFFmpeg_on :: "capture \<Rightarrow> proc_event \<Rightarrow> capture" where
  "runFFmpeg_on c (StdoutData d) = c\<lparr>cap_stdout := cap_stdout c @ d\<rparr>"
| "runFFmpeg_on c (StderrData d) = c\<lparr>cap_stderr := cap_stderr c @ d\<rparr>"
| "runFFmpeg_on c (ErrorEvent code msg) =
     c\<lparr>cap_promise :=
         settle (Rejected (JsError ''Error''
                   (''spawn ffmpeg failed: '' @ code_or_empty code @ '' '' @ msg)))
           (cap_promise c)\<rparr>"
| "runFFmpeg_on c (CloseEvent code signal) =
     c\<lparr>cap_promise :=
         settle
           (if code = Some 0 then Resolved
            else Rejected (JsError ''Error''
                   (''ffmpeg exited code='' @ show_code code @ '' signal='' @ show_signal signal
                    @ nl @ ''STDERR:'' @ nl @ cap_stderr c
                    @ nl @ ''STDOUT:'' @ nl @ cap_stdout c)))
           (cap_promise c)\<rparr>"

definition runFFmpeg :: "proc_event list \<Rightarrow> outcome" where
  "runFFmpeg evs = cap_promise (foldl runFFmpeg_on capture0 evs)"

text \<open>
  \<open>run\<close> of \<open>src/server.js\<close>: a listener on stderr and one on \<open>close\<close>. Nothing reads
  stdout and nothing listens for \<open>error\<close>; once an \<open>error\<close> event has gone uncaught the
  process is gone and later events reach nobody.
\<close>

fun run_on :: "capture \<Rightarrow> proc_event \<Rightarrow> capture" where
  "run_on c (StdoutData d) = c"
| "run_on c (StderrData d) =
     (case cap_promise c of Crashed e \<Rightarrow> c | _ \<Rightarrow> c\<lparr>cap_stderr := cap_stderr c @ d\<rparr>)"
| "run_on c (ErrorEvent code msg) =
     (case cap_promise c of
        Crashed e \<Rightarrow> c
      | _ \<Rightarrow> c\<lparr>cap_promise := Crashed (JsError ''Error'' msg)\<rparr>)"
| "run_on c (CloseEvent code signal) =
     (case cap_promise c of
        Crashed e \<Rightarrow> c
      | _ \<Rightarrow>
        c\<lparr>cap_promise :=
            settle
              (if code = Some 0 then Resolved
               else Rejected (JsError ''Error''
                      (''Command failed ('' @ show_code code @ ''): '' @ cap_stderr c)))
              (cap_promise c)\<rparr>)"

definition run :: "proc_event list \<Rightarrow> outcome" where
  "run evs = cap_promise (foldl run_on capture0 evs)"

section \<open>The outside world as the handler meets it\<close>

text \<open>
  A response body is the chunks the stream delivers and then either its end or an error.
  \<open>fetch\<close> either rejects (no connection, a string that is not a URL) or yields a
  response with a status and, possibly, a body.
\<close>

datatype body_stream = Body "string list" "js_error option"

datatype fetch_result =
    FetchFailed js_error
  | Response nat "body_stream option"

text \<open>\<open>res.ok\<close>\<close>

definition res_ok :: "nat \<Rightarrow> bool" where
  "res_ok status = (200 \<le> status \<and> status \<le> 299)"

text \<open>
  One run of the external program: it could not be started (\<open>err.code\<close>, \<open>err.message\<close>,
  and the negative errno that \<open>close\<close> reports afterwards); or it ran, wrote chunks to its
  pipes, closed with a code or a signal, and left bytes at its output path or not; or it
  never ends. The output path of ffmpeg is its last argument.
\<close>

datatype proc_run =
    NotStarted "string option" string int
  | Ran "proc_event list" "int option" "string option" "string option"
  | NeverEnds "proc_event list" "string option"

fun is_data :: "proc_event \<Rightarrow> bool" where
  "is_data (StdoutData d) = True"
| "is_data (StderrData d) = True"
| "is_data ev = False"

fun events_of :: "proc_run \<Rightarrow> proc_event list" where
  "events_of (NotStarted code msg errno) = [ErrorEvent code msg, CloseEvent (Some errno) None]"
| "events_of (Ran chunks code signal out) = filter is_data chunks @ [CloseEvent code signal]"
| "events_of (NeverEnds chunks out) = filter is_data chunks"

fun output_of :: "proc_run \<Rightarrow> string option" where
  "output_of (NotStarted code msg errno) = None"
| "output_of (Ran chunks code signal out) = out"
| "output_of (NeverEnds chunks out) = out"

text \<open>
  What is not decided by the code: the configured key, the temporary directory, the
  answer to each fetch (by URL and destination file name), the run of the external
  program on each argument list, whether a path can be written (and the error if not),
  the eight random bytes in hex, and the clock when the result is stored.
\<close>

record env =
  env_API_KEY :: string
  env_tmpdir :: string
  env_fetch :: "string \<Rightarrow> string \<Rightarrow> fetch_result"
  env_ffmpeg :: "string list \<Rightarrow> proc_run"
  env_write_error :: "string \<Rightarrow> js_error option"
  env_random_hex :: string
  env_now :: int

record request =
  req_api_key :: "string option"
  req_body :: jsval
  req_protocol :: string
  req_host :: "string option"

text \<open>An awaited step ends with a value, throws, or never comes back.\<close>

datatype 'a step = Done 'a | Threw js_error | Stuck

definition io_bind :: "(world \<Rightarrow> 'a step \<times> world) \<Rightarrow> ('a \<Rightarrow> world \<Rightarrow> 'b step \<times> world)
    \<Rightarrow> world \<Rightarrow> 'b step \<times> world" where
  "io_bind m f w =
     (case m w of
        (Done a, w1) \<Rightarrow> f a w1
      | (Threw e, w1) \<Rightarrow> (Threw e, w1)
      | (Stuck, w1) \<Rightarrow> (Stuck, w1))"

definition io_return :: "'a \<Rightarrow> world \<Rightarrow> 'a step \<times> world" where
  "io_return a w = (Done a, w)"

definition io_do :: "(world \<Rightarrow> world) \<Rightarrow> world \<Rightarrow> unit step \<times> world" where
  "io_do g w = (Done (), g w)"

definition log_effect :: "effect \<Rightarrow> world \<Rightarrow> world" where
  "log_effect ev w = w\<lparr>trace := trace w @ [ev]\<rparr>"

text \<open>\<open>path.join(dir, name)\<close> for a directory without a trailing separator.\<close>

definition path_join :: "string \<Rightarrow> string \<Rightarrow> string" where
  "path_join d f = d @ ''/'' @ f"

section \<open>The resource fetcher: \<open>downloadToTmp\<close>\<close>

definition downloadToTmp :: "env \<Rightarrow> jsval \<Rightarrow> string \<Rightarrow> world \<Rightarrow> string step \<times> world" where
  "downloadToTmp env url filename w =
     (let w1 = log_effect (NetFetch (js_to_string url)) w in
      case env_fetch env (js_to_string url) filename of
        FetchFailed e \<Rightarrow> (Threw e, w1)
      | Response status body \<Rightarrow>
          if \<not> res_ok status then
            (Threw (JsError ''Error''
               (''Failed to download '' @ js_to_string url
                @ '' (HTTP '' @ decimal_nat status @ '')'')), w1)
          else
            (case body of
               None \<Rightarrow> (Threw (JsError ''Error'' (''No response body for '' @ js_to_string url)), w1)
             | Some (Body chunks failure) \<Rightarrow>
                 (let dest = path_join (env_tmpdir env) filename in
                  case env_write_error env dest of
                    Some e \<Rightarrow> (Threw e, w1)
                  | None \<Rightarrow>
                      (let w2 = log_effect (FileWrite dest)
                                  (w1\<lparr>files := (files w1)(dest \<mapsto> concat chunks)\<rparr>)
                       in case failure of
                            Some e \<Rightarrow> (Threw e, w2)
                          | None \<Rightarrow> (Done dest, w2)))))"

text \<open>\<open>await fs.promises.writeFile(path, text, "utf8")\<close>\<close>

definition writeFile :: "env \<Rightarrow> string \<Rightarrow> string \<Rightarrow> world \<Rightarrow> unit step \<times> world" where
  "writeFile env dest txt w =
     (case env_write_error env dest of
        Some e \<Rightarrow> (Threw e, w)
      | None \<Rightarrow> (Done (), log_effect (FileWrite dest) (w\<lparr>files := (files w)(dest \<mapsto> txt)\<rparr>)))"

text \<open>\<open>await runFFmpeg(args)\<close>: the program is spawned, does what it does to its output
  path, and the promise of the invoker decides how the \<open>await\<close> ends.\<close>

definition await_runFFmpeg :: "env \<Rightarrow> string list \<Rightarrow> world \<Rightarrow> unit step \<times> world" where
  "await_runFFmpeg env args w =
     (let w1 = log_effect (Spawn ''ffmpeg'' args) w;
          r = env_ffmpeg env args;
          w2 = (case output_of r of
                  None \<Rightarrow> w1
                | Some bytes \<Rightarrow> w1\<lparr>files := (files w1)(last args \<mapsto> bytes)\<rparr>)
      in case runFFmpeg (events_of r) of
           Resolved \<Rightarrow> (Done (), w2)
         | Rejected e \<Rightarrow> (Threw e, w2)
         | Pending \<Rightarrow> (Stuck, w2)
         | Crashed e \<Rightarrow> (Stuck, w2))"

section \<open>The concat list file\<close>

text \<open>\<open>p.replace(/'/g, "'\\''")\<close>: every single quote becomes the four characters
  quote, backslash, quote, quote.\<close>

definition escape_quotes :: "string \<Rightarrow> string" where
  "escape_quotes p = concat (map (\<lambda>c. if c = sq then [sq, bs, sq, sq] else [c]) p)"

definition list_line :: "string \<Rightarrow> string" where
  "list_line p = ''file '' @ [sq] @ escape_quotes p @ [sq] @ nl"

definition listTxt :: "string \<Rightarrow> string \<Rightarrow> string \<Rightarrow> string" where
  "listTxt v1 v2 v3 = list_line v1 @ list_line v2 @ list_line v3"

section \<open>The two ffmpeg command lines\<close>

definition baseArgs :: "string \<Rightarrow> string \<Rightarrow> string list" where
  "baseArgs listPath basePath =
     [''-y'',
      ''-loglevel'', ''error'',
      ''-f'', ''concat'',
      ''-safe'', ''0'',
      ''-i'', listPath,
      ''-vf'',
      ''scale=1080:1920:force_original_aspect_ratio=increase,crop=1080:1920,setsar=1,fps=30'',
      ''-an'',
      ''-c:v'', ''libx264'',
      ''-preset'', ''veryfast'',
      ''-crf'', ''28'',
      ''-pix_fmt'', ''yuv420p'',
      ''-movflags'', ''+faststart'',
      basePath]"

definition finalArgs :: "string \<Rightarrow> string \<Rightarrow> string \<Rightarrow> string list" where
  "finalArgs basePath a1 outPath =
     [''-y'',
      ''-loglevel'', ''error'',
      ''-stream_loop'', ''-1'',
      ''-i'', basePath,
      ''-i'', a1,
      ''-map'', ''0:v:0'',
      ''-map'', ''1:a:0'',
      ''-shortest'',
      ''-c:v'', ''libx264'',
      ''-preset'', ''veryfast'',
      ''-crf'', ''28'',
      ''-pix_fmt'', ''yuv420p'',
      ''-c:a'', ''aac'',
      ''-b:a'', ''192k'',
      ''-movflags'', ''+faststart'',
      outPath]"

section \<open>Submission: \<open>POST /stitch\<close>\<close>

datatype stitch_response =
    Unauthorized401
  | BadRequest400 string jsval
  | Ok200 string string
  | ServerError500 string
  | NoResponse

text \<open>The scratch paths of a job.\<close>

definition scratch_name :: "string \<Rightarrow> string \<Rightarrow> string \<Rightarrow> string" where
  "scratch_name role ident ext = role @ ''_'' @ ident @ ext"

definition final_path :: "env \<Rightarrow> string \<Rightarrow> string" where
  "final_path env ident = path_join (env_tmpdir env) (scratch_name ''final'' ident ''.mp4'')"

definition base_path :: "env \<Rightarrow> string \<Rightarrow> string" where
  "base_path env ident = path_join (env_tmpdir env) (scratch_name ''base'' ident ''.mp4'')"

definition list_path :: "env \<Rightarrow> string \<Rightarrow> string" where
  "list_path env ident = path_join (env_tmpdir env) (scratch_name ''list'' ident ''.txt'')"

text \<open>\<open>results.set(id, { filePath: outPath, expiresAt: Date.now() + RESULT_TTL_MS })\<close>\<close>

definition store_result :: "env \<Rightarrow> string \<Rightarrow> string \<Rightarrow> world \<Rightarrow> world" where
  "store_result env ident outPath w =
     log_effect (ResultSet ident)
       (w\<lparr>results :=
            results_set ident \<lparr>filePath = outPath, expiresAt = env_now env + RESULT_TTL_MS\<rparr>
              (results w)\<rparr>)"

text \<open>\<open>for (const p of ps) { try { fs.unlinkSync(p); } catch {} }\<close>\<close>

fun unlink_all :: "string list \<Rightarrow> world \<Rightarrow> world" where
  "unlink_all [] w = w"
| "unlink_all (p # ps) w = unlink_all ps (unlink_quiet p w)"

fun show_host :: "string option \<Rightarrow> string" where
  "show_host None = ''undefined''"
| "show_host (Some h) = h"

text \<open>
  The body of the \<open>try\<close> block after validation, from the random identifier to the
  response; every \<open>await\<close> is a bind, in the order of the source.
\<close>

definition stitch_job :: "env \<Rightarrow> request \<Rightarrow> jsval \<Rightarrow> jsval list
    \<Rightarrow> world \<Rightarrow> stitch_response step \<times> world" where
  "stitch_job env req audioUrl videoUrls =
     (let ident = env_random_hex env in
      io_bind (downloadToTmp env (videoUrls ! 0) (scratch_name ''v1'' ident ''.mp4'')) (\<lambda>v1.
      io_bind (downloadToTmp env (videoUrls ! 1) (scratch_name ''v2'' ident ''.mp4'')) (\<lambda>v2.
      io_bind (downloadToTmp env (videoUrls ! 2) (scratch_name ''v3'' ident ''.mp4'')) (\<lambda>v3.
      io_bind (downloadToTmp env audioUrl (scratch_name ''narr'' ident ''.mp3'')) (\<lambda>a1.
      let listPath = list_path env ident in
      io_bind (writeFile env listPath (listTxt v1 v2 v3)) (\<lambda>u1.
      let outPath = final_path env ident;
          basePath = base_path env ident in
      io_bind (await_runFFmpeg env (baseArgs listPath basePath)) (\<lambda>u2.
      io_bind (await_runFFmpeg env (finalArgs basePath a1 outPath)) (\<lambda>u3.
      io_bind (io_do (unlink_quiet basePath)) (\<lambda>u4.
      io_bind (io_do (store_result env ident outPath)) (\<lambda>u5.
      io_bind (io_do (unlink_all [v1, v2, v3, a1, listPath])) (\<lambda>u6.
      io_return
        (Ok200 (req_protocol req @ ''://'' @ show_host (req_host req) @ ''/result/'' @ ident)
           ident))))))))))))"

text \<open>\<open>videoUrls.find(p)\<close>: the first element that satisfies \<open>p\<close>, or \<open>undefined\<close>.\<close>

definition js_find :: "(jsval \<Rightarrow> bool) \<Rightarrow> jsval list \<Rightarrow> jsval" where
  "js_find p xs = (case List.find p xs of None \<Rightarrow> JUndefined | Some v \<Rightarrow> v)"

text \<open>The test inside \<open>find\<close>: \<open>!v || typeof v !== "string" || !v.startsWith("http")\<close>.\<close>

definition bad_url :: "jsval \<Rightarrow> bool" where
  "bad_url v = (\<not> truthy v \<or> \<not> is_string v \<or> \<not> starts_with_http v)"

text \<open>\<open>if (API_KEY) { if (!got || got !== API_KEY) return 401 }\<close>\<close>

definition unauthorized :: "env \<Rightarrow> request \<Rightarrow> bool" where
  "unauthorized env req =
     (env_API_KEY env \<noteq> [] \<and>
      (case req_api_key req of None \<Rightarrow> True | Some got \<Rightarrow> got = [] \<or> got \<noteq> env_API_KEY env))"

text \<open>\<open>req.body?.audioUrl ?? req.body?.narrationUrl\<close> and
  \<open>req.body?.videoUrls ?? req.body?.videos\<close>\<close>

definition audio_of :: "jsval \<Rightarrow> jsval" where
  "audio_of body = nullish_or (get_field body ''audioUrl'') (get_field body ''narrationUrl'')"

definition videos_of :: "jsval \<Rightarrow> jsval" where
  "videos_of body = nullish_or (get_field body ''videoUrls'') (get_field body ''videos'')"

definition post_stitch :: "env \<Rightarrow> request \<Rightarrow> world \<Rightarrow> stitch_response \<times> world" where
  "post_stitch env req w =
     (if unauthorized env req then (Unauthorized401, w)
      else
        (let audioUrl = audio_of (req_body req);
             videoUrls = videos_of (req_body req)
         in
         if bad_url audioUrl then
           (BadRequest400 ''audioUrl/narrationUrl missing/invalid'' audioUrl, w)
         else if \<not> is_array videoUrls \<or> length (elems videoUrls) \<noteq> 3 then
           (BadRequest400 ''videoUrls/videos must be an array of exactly 3 URLs'' videoUrls, w)
         else
           (let bad = js_find bad_url (elems videoUrls) in
            if truthy bad then (BadRequest400 ''One of the video URLs is invalid'' bad, w)
            else
              (case stitch_job env req audioUrl (elems videoUrls) w of
                 (Done r, w1) \<Rightarrow> (r, w1)
               | (Threw e, w1) \<Rightarrow> (ServerError500 (error_text e), w1)
               | (Stuck, w1) \<Rightarrow> (NoResponse, w1)))))"

section \<open>Notions used to state the properties\<close>

text \<open>Retrievals one after the other, each on the state the one before left.\<close>

fun get_many :: "string list \<Rightarrow> world \<Rightarrow> get_response list \<times> world" where
  "get_many [] w = ([], w)"
| "get_many (i # ids) w =
     (case get_result i w of (r, w1) \<Rightarrow> (case get_many ids w1 of (rs, w2) \<Rightarrow> (r # rs, w2)))"

text \<open>
  A store as the handler builds it: one entry per identifier, and the file of an entry
  is the final artifact named after its identifier in the temporary directory.
\<close>

definition store_ok :: "string \<Rightarrow> world \<Rightarrow> bool" where
  "store_ok tmp w =
     (distinct (map fst (results w)) \<and>
      list_all (\<lambda>e. filePath (snd e) = path_join tmp (scratch_name ''final'' (fst e) ''.mp4''))
        (results w))"


text \<open>What the validation accepts as a URL: a string that begins with \<open>http\<close>.\<close>

fun http_string :: "jsval \<Rightarrow> bool" where
  "http_string (JStr s) = startsWith s ''http''"
| "http_string v = False"

text \<open>
  The spec's words for a URL, "a well-formed absolute URL with an HTTP(S) scheme", as far
  as they are needed here: the scheme \<open>http://\<close> or \<open>https://\<close> followed by something.
\<close>

fun spec_http_url :: "jsval \<Rightarrow> bool" where
  "spec_http_url (JStr s) =
     ((startsWith s ''http://'' \<and> 7 < length s) \<or> (startsWith s ''https://'' \<and> 8 < length s))"
| "spec_http_url v = False"

text \<open>The requests that pass the three checks of the handler.\<close>

definition passes_validation :: "env \<Rightarrow> request \<Rightarrow> bool" where
  "passes_validation env req =
     (\<not> unauthorized env req \<and>
      \<not> bad_url (audio_of (req_body req)) \<and>
      is_array (videos_of (req_body req)) \<and>
      length (elems (videos_of (req_body req))) = 3 \<and>
      \<not> truthy (js_find bad_url (elems (videos_of (req_body req)))))"

text \<open>A fetch that \<open>downloadToTmp\<close> completes: a success status, a body that ends without
  an error, and a destination that can be written.\<close>

definition fetch_succeeds :: "env \<Rightarrow> string \<Rightarrow> string \<Rightarrow> bool" where
  "fetch_succeeds env url fn =
     (case env_fetch env url fn of
        Response status (Some (Body chunks None)) \<Rightarrow>
          res_ok status \<and> env_write_error env (path_join (env_tmpdir env) fn) = None
      | _ \<Rightarrow> False)"

text \<open>What the listeners have accumulated from the chunks of a run.\<close>

fun stderr_text :: "proc_event list \<Rightarrow> string" where
  "stderr_text [] = []"
| "stderr_text (StderrData d # evs) = d @ stderr_text evs"
| "stderr_text (ev # evs) = stderr_text evs"

fun stdout_text :: "proc_event list \<Rightarrow> string" where
  "stdout_text [] = []"
| "stdout_text (StdoutData d # evs) = d @ stdout_text evs"
| "stdout_text (ev # evs) = stdout_text evs"

fun is_done :: "'a step \<Rightarrow> bool" where
  "is_done (Done a) = True"
| "is_done s = False"

fun is_ResultSet :: "effect \<Rightarrow> bool" where
  "is_ResultSet (ResultSet i) = True"
| "is_ResultSet e = False"

fun is_FileUnlink :: "effect \<Rightarrow> bool" where
  "is_FileUnlink (FileUnlink p) = True"
| "is_FileUnlink e = False"

text \<open>
  \<open>only_adds w w'\<close>: from \<open>w\<close> to \<open>w'\<close> the result map is the same, no file was
  removed, and the effects in between include neither a deletion nor an insertion into
  the result map.
\<close>

definition only_adds :: "world \<Rightarrow> world \<Rightarrow> bool" where
  "only_adds w w' =
     (results w' = results w \<and>
      (\<forall>p. files w p \<noteq> None \<longrightarrow> files w' p \<noteq> None) \<and>
      (\<exists>es. trace w' = trace w @ es \<and> list_all (\<lambda>e. \<not> is_ResultSet e \<and> \<not> is_FileUnlink e) es))"

definition always_adds :: "(world \<Rightarrow> 'a step \<times> world) \<Rightarrow> bool" where
  "always_adds m = (\<forall>w. only_adds w (snd (m w)))"

definition fails_adding :: "(world \<Rightarrow> 'a step \<times> world) \<Rightarrow> bool" where
  "fails_adding m = (\<forall>w. \<not> is_done (fst (m w)) \<longrightarrow> only_adds w (snd (m w)))"

definition never_fails :: "(world \<Rightarrow> 'a step \<times> world) \<Rightarrow> bool" where
  "never_fails m = (\<forall>w. is_done (fst (m w)))"

text \<open>Steps that leave the file at a given path as it is; and computations that, when
  they fail, have left it as it is.\<close>

definition always_keeps :: "string \<Rightarrow> (world \<Rightarrow> 'a step \<times> world) \<Rightarrow> bool" where
  "always_keeps p m = (\<forall>w. files (snd (m w)) p = files w p)"

definition fails_keeping :: "string \<Rightarrow> (world \<Rightarrow> 'a step \<times> world) \<Rightarrow> bool" where
  "fails_keeping p m = (\<forall>w. \<not> is_done (fst (m w)) \<longrightarrow> files (snd (m w)) p = files w p)"

definition never_stuck :: "(world \<Rightarrow> 'a step \<times> world) \<Rightarrow> bool" where
  "never_stuck m = (\<forall>w. fst (m w) \<noteq> Stuck)"

text \<open>What the process does over its life: submissions, each with the environment it
  meets, sweeps at their clock readings, and retrievals.\<close>

datatype event = Submit env request | Sweep int | Retrieve string

fun after_event :: "event \<Rightarrow> world \<Rightarrow> world" where
  "after_event (Submit env req) w = snd (post_stitch env req w)"
| "after_event (Sweep t) w = cleanupResults t w"
| "after_event (Retrieve ident) w = snd (get_result ident w)"

fun same_tmpdir :: "string \<Rightarrow> event \<Rightarrow> bool" where
  "same_tmpdir tmp (Submit env req) = (env_tmpdir env = tmp)"
| "same_tmpdir tmp ev = True"

section \<open>Concrete states, environments and requests\<close>

text \<open>The process state at start-up.\<close>

definition w_empty :: world where
  "w_empty = \<lparr>files = Map.empty, results = [], trace = []\<rparr>"

text \<open>A store with two published results, expiring at 1200000 and at 1801000, and their
  files.\<close>

definition w_pub :: world where
  "w_pub =
     \<lparr>files = [''/tmp/final_00ff.mp4'' \<mapsto> ''mp4'', ''/tmp/final_0a0b.mp4'' \<mapsto> ''old''],
      results =
        [(''0a0b'', \<lparr>filePath = ''/tmp/final_0a0b.mp4'', expiresAt = 1200000\<rparr>),
         (''00ff'', \<lparr>filePath = ''/tmp/final_00ff.mp4'', expiresAt = 1801000\<rparr>)],
      trace = []\<rparr>"

text \<open>An environment in which every fetch and both transcodes succeed; one in which the
  second video answers 404; one in which \<open>fetch\<close> rejects what it cannot parse as a URL.\<close>

definition env_ok :: env where
  "env_ok =
     \<lparr>env_API_KEY = [],
      env_tmpdir = ''/tmp'',
      env_fetch = (\<lambda>url fn. Response 200 (Some (Body [''ab'', ''cd''] None))),
      env_ffmpeg = (\<lambda>args. Ran [] (Some 0) None (Some ''mp4'')),
      env_write_error = (\<lambda>p. None),
      env_random_hex = ''00ff'',
      env_now = 1000\<rparr>"

definition env_404 :: env where
  "env_404 =
     env_ok\<lparr>env_fetch :=
       (\<lambda>url fn. if url = ''http://cdn/2.mp4'' then Response 404 (Some (Body [] None))
                  else Response 200 (Some (Body [''ab'', ''cd''] None)))\<rparr>"

definition env_strict :: env where
  "env_strict =
     env_ok\<lparr>env_fetch :=
       (\<lambda>url fn. if url = ''httpfoo'' \<or> url = ''null''
                  then FetchFailed (JsError ''TypeError'' (''Failed to parse URL from '' @ url))
                  else Response 200 (Some (Body [''ab'', ''cd''] None)))\<rparr>"

text \<open>An environment without the ffmpeg binary.\<close>

definition env_no_ffmpeg :: env where
  "env_no_ffmpeg =
     env_ok\<lparr>env_ffmpeg := (\<lambda>args. NotStarted (Some ''ENOENT'') ''spawn ffmpeg ENOENT'' (- 2))\<rparr>"

text \<open>A well-formed request.\<close>

definition req_ok :: request where
  "req_ok =
     \<lparr>req_api_key = None,
      req_body = JObj [(''audioUrl'', JStr ''http://cdn/n.mp3''),
                       (''videoUrls'', JArr [JStr ''http://cdn/1.mp4'', JStr ''http://cdn/2.mp4'',
                                            JStr ''http://cdn/3.mp4''])],
      req_protocol = ''http'',
      req_host = Some ''svc''\<rparr>"

text \<open>A request with a video entry that begins with \<open>http\<close> and is no URL, and one
  with a \<open>null\<close> entry.\<close>

definition req_httpfoo :: request where
  "req_httpfoo =
     req_ok\<lparr>req_body :=
       JObj [(''audioUrl'', JStr ''http://cdn/n.mp3''),
             (''videoUrls'', JArr [JStr ''http://cdn/1.mp4'', JStr ''httpfoo'',
                                  JStr ''http://cdn/3.mp4''])]\<rparr>"

definition req_null_video :: request where
  "req_null_video =
     req_ok\<lparr>req_body :=
       JObj [(''audioUrl'', JStr ''http://cdn/n.mp3''),
             (''videoUrls'', JArr [JStr ''http://cdn/1.mp4'', JNull, JStr ''http://cdn/3.mp4''])]\<rparr>"



section \<open>The result map and the sweep\<close>

lemma get_result_world: "snd (get_result ident w) = w"
  by (simp add: get_result_def split: option.splits)

lemma cleanup_loop_lookup:
  "map_of (results (cleanup_loop now es w)) k =
     (if k \<in> fst ` {e \<in> set es. expiresAt (snd e) \<le> now} then None else map_of (results w) k)"
proof (induction es arbitrary: w)
  case Nil
  show ?case by simp
next
  case (Cons e es)
  obtain i m where e: "e = (i, m)" by (cases e)
  show ?case
    unfolding e
    by (auto simp: Cons.IH unlink_quiet_def results_delete_def Let_def AList.delete_conv image_iff)
qed

lemma cleanup_loop_files:
  "files (cleanup_loop now es w) p =
     (if p \<in> (\<lambda>e. filePath (snd e)) ` {e \<in> set es. expiresAt (snd e) \<le> now} then None else files w p)"
proof (induction es arbitrary: w)
  case Nil
  show ?case by simp
next
  case (Cons e es)
  obtain i m where e: "e = (i, m)" by (cases e)
  show ?case
    unfolding e
    by (auto simp: Cons.IH unlink_quiet_def results_delete_def Let_def image_iff)
qed

lemma cleanup_loop_distinct:
  "distinct (map fst (results w)) \<Longrightarrow> distinct (map fst (results (cleanup_loop now es w)))"
  by (induction es arbitrary: w)
     (auto simp: unlink_quiet_def results_delete_def Let_def AList.distinct_delete)

lemma cleanupResults_lookup:
  assumes "distinct (map fst (results w))"
  shows "results_get (results (cleanupResults now w)) k =
     (case results_get (results w) k of
        None \<Rightarrow> None
      | Some m \<Rightarrow> if expiresAt m \<le> now then None else Some m)"
proof (cases "map_of (results w) k")
  case None
  then show ?thesis
    by (simp add: results_get_def cleanupResults_def cleanup_loop_lookup)
next
  case (Some m)
  have "k \<in> fst ` {e \<in> set (results w). expiresAt (snd e) \<le> now} \<longleftrightarrow> expiresAt m \<le> now"
  proof
    assume "k \<in> fst ` {e \<in> set (results w). expiresAt (snd e) \<le> now}"
    then obtain m' where "(k, m') \<in> set (results w)" "expiresAt m' \<le> now" by auto
    with assms Some show "expiresAt m \<le> now" by (simp add: map_of_eq_Some_iff)
  next
    assume "expiresAt m \<le> now"
    moreover from Some have "(k, m) \<in> set (results w)" by (rule map_of_SomeD)
    ultimately show "k \<in> fst ` {e \<in> set (results w). expiresAt (snd e) \<le> now}" by force
  qed
  with Some show ?thesis
    by (simp add: results_get_def cleanupResults_def cleanup_loop_lookup)
qed

lemma cleanupResults_distinct:
  "distinct (map fst (results w)) \<Longrightarrow> distinct (map fst (results (cleanupResults now w)))"
  by (simp add: cleanupResults_def cleanup_loop_distinct)

lemma sweeps_distinct:
  "distinct (map fst (results w)) \<Longrightarrow> distinct (map fst (results (sweeps ts w)))"
  by (induction ts arbitrary: w) (auto simp: cleanupResults_distinct)

lemma sweeps_absent:
  "distinct (map fst (results w)) \<Longrightarrow> results_get (results w) k = None \<Longrightarrow>
   results_get (results (sweeps ts w)) k = None"
  by (induction ts arbitrary: w) (auto simp: cleanupResults_distinct cleanupResults_lookup)

lemma sweeps_live:
  "distinct (map fst (results w)) \<Longrightarrow> results_get (results w) k = Some m \<Longrightarrow>
   \<forall>t \<in> set ts. t < expiresAt m \<Longrightarrow> results_get (results (sweeps ts w)) k = Some m"
  by (induction ts arbitrary: w) (auto simp: cleanupResults_distinct cleanupResults_lookup)

lemma sweeps_expired:
  "distinct (map fst (results w)) \<Longrightarrow> results_get (results w) k = Some m \<Longrightarrow>
   \<exists>t \<in> set ts. expiresAt m \<le> t \<Longrightarrow> results_get (results (sweeps ts w)) k = None"
proof (induction ts arbitrary: w)
  case Nil
  then show ?case by simp
next
  case (Cons t ts)
  show ?case
  proof (cases "expiresAt m \<le> t")
    case True
    with Cons.prems have "results_get (results (cleanupResults t w)) k = None"
      by (simp add: cleanupResults_lookup)
    with Cons.prems show ?thesis
      by (simp add: sweeps_absent cleanupResults_distinct)
  next
    case False
    with Cons.prems have "results_get (results (cleanupResults t w)) k = Some m"
      by (simp add: cleanupResults_lookup)
    moreover from False Cons.prems have "\<exists>t \<in> set ts. expiresAt m \<le> t" by auto
    ultimately show ?thesis
      using Cons.IH [of "cleanupResults t w"] Cons.prems by (simp add: cleanupResults_distinct)
  qed
qed

lemma final_name_inj:
  "path_join tmp (scratch_name ''final'' i ''.mp4'') = path_join tmp (scratch_name ''final'' j ''.mp4'')
   \<Longrightarrow> i = j"
  by (simp add: path_join_def scratch_name_def)

lemma cleanup_loop_paths:
  "list_all P (results w) \<Longrightarrow> list_all P (results (cleanup_loop now es w))"
proof (induction es arbitrary: w)
  case Nil
  then show ?case by simp
next
  case (Cons e es)
  obtain i m where e: "e = (i, m)" by (cases e)
  have "list_all P (AList.delete i (results w))"
    using Cons.prems by (auto simp: list_all_iff AList.delete_eq)
  with Cons show ?case
    unfolding e by (simp add: unlink_quiet_def results_delete_def Let_def)
qed

lemma cleanupResults_store_ok: "store_ok tmp w \<Longrightarrow> store_ok tmp (cleanupResults now w)"
  by (simp add: store_ok_def cleanupResults_def cleanup_loop_distinct cleanup_loop_paths)

lemma sweeps_store_ok: "store_ok tmp w \<Longrightarrow> store_ok tmp (sweeps ts w)"
  by (induction ts arbitrary: w) (auto simp: cleanupResults_store_ok)

lemma cleanupResults_live_file:
  assumes ok: "store_ok tmp w" and k: "results_get (results w) k = Some m"
    and live: "now < expiresAt m"
  shows "files (cleanupResults now w) (filePath m) = files w (filePath m)"
proof -
  have km: "(k, m) \<in> set (results w)"
    using k by (simp add: results_get_def map_of_SomeD)
  have "filePath m \<notin> (\<lambda>e. filePath (snd e)) ` {e \<in> set (results w). expiresAt (snd e) \<le> now}"
  proof
    assume "filePath m \<in> (\<lambda>e. filePath (snd e)) ` {e \<in> set (results w). expiresAt (snd e) \<le> now}"
    then obtain i m' where im: "(i, m') \<in> set (results w)" and ex: "expiresAt m' \<le> now"
      and same: "filePath m' = filePath m" by auto
    from ok im have "filePath m' = path_join tmp (scratch_name ''final'' i ''.mp4'')"
      by (auto simp: store_ok_def list_all_iff)
    moreover from ok km have "filePath m = path_join tmp (scratch_name ''final'' k ''.mp4'')"
      by (auto simp: store_ok_def list_all_iff)
    ultimately have "i = k" using same final_name_inj by metis
    with ok im km have "m' = m" by (auto simp: store_ok_def dest: eq_key_imp_eq_value)
    with ex live show False by simp
  qed
  then show ?thesis by (simp add: cleanupResults_def cleanup_loop_files)
qed

lemma sweeps_live_file:
  "store_ok tmp w \<Longrightarrow> results_get (results w) k = Some m \<Longrightarrow> \<forall>t \<in> set ts. t < expiresAt m \<Longrightarrow>
   files (sweeps ts w) (filePath m) = files w (filePath m)"
proof (induction ts arbitrary: w)
  case Nil
  then show ?case by simp
next
  case (Cons t ts)
  from Cons.prems have live: "t < expiresAt m" by simp
  from Cons.prems have d: "distinct (map fst (results w))" by (simp add: store_ok_def)
  from Cons.prems live d have "results_get (results (cleanupResults t w)) k = Some m"
    by (simp add: cleanupResults_lookup)
  with Cons.IH [of "cleanupResults t w"] Cons.prems
  have "files (sweeps ts (cleanupResults t w)) (filePath m) = files (cleanupResults t w) (filePath m)"
    by (simp add: cleanupResults_store_ok)
  with Cons.prems live show ?case by (simp add: cleanupResults_live_file)
qed

lemma get_many_frame:
  "get_many ids w = (map (\<lambda>i. fst (get_result i w)) ids, w)"
  by (induction ids) (auto simp: get_result_world split: prod.splits dest: arg_cong [where f = snd])

lemma sweeps_file_gone: "files w p = None \<Longrightarrow> files (sweeps ts w) p = None"
  by (induction ts arbitrary: w) (auto simp: cleanupResults_def cleanup_loop_files)

lemma cleanupResults_expired_file:
  assumes "results_get (results w) k = Some m" and "expiresAt m \<le> now"
  shows "files (cleanupResults now w) (filePath m) = None"
proof -
  from assms(1) have "(k, m) \<in> set (results w)"
    by (simp add: results_get_def map_of_SomeD)
  with assms(2) have "filePath m \<in> (\<lambda>e. filePath (snd e)) ` {e \<in> set (results w). expiresAt (snd e) \<le> now}"
    by force
  then show ?thesis by (simp add: cleanupResults_def cleanup_loop_files)
qed

lemma sweeps_expired_file:
  "distinct (map fst (results w)) \<Longrightarrow> results_get (results w) k = Some m \<Longrightarrow>
   \<exists>t \<in> set ts. expiresAt m \<le> t \<Longrightarrow> files (sweeps ts w) (filePath m) = None"
proof (induction ts arbitrary: w)
  case Nil
  then show ?case by simp
next
  case (Cons t ts)
  show ?case
  proof (cases "expiresAt m \<le> t")
    case True
    with Cons.prems have "files (cleanupResults t w) (filePath m) = None"
      by (simp add: cleanupResults_expired_file)
    then show ?thesis by (simp add: sweeps_file_gone)
  next
    case False
    with Cons.prems have "results_get (results (cleanupResults t w)) k = Some m"
      by (simp add: cleanupResults_lookup)
    moreover from False Cons.prems have "\<exists>t \<in> set ts. expiresAt m \<le> t" by auto
    ultimately show ?thesis
      using Cons.IH [of "cleanupResults t w"] Cons.prems by (simp add: cleanupResults_distinct)
  qed
qed

lemma w_pub_facts:
  "store_ok ''/tmp'' w_pub"
  "results_get (results w_pub) ''00ff'' = Some \<lparr>filePath = ''/tmp/final_00ff.mp4'', expiresAt = 1801000\<rparr>"
  "files w_pub ''/tmp/final_00ff.mp4'' = Some ''mp4''"
  by (simp_all add: w_pub_def store_ok_def results_get_def path_join_def scratch_name_def)

lemma expired_entry_in_the_store_is_served:
  "results_get (results w_pub) ''0a0b'' = Some \<lparr>filePath = ''/tmp/final_0a0b.mp4'', expiresAt = 1200000\<rparr> \<and>
   (1200000 :: int) \<le> 1500000 \<and>
   fst (get_result ''0a0b'' w_pub) = Stream200 ''final_0a0b.mp4'' ''/tmp/final_0a0b.mp4'' ''old'' \<and>
   fst (get_result ''ffff'' w_pub) = NotFound404"
  by (simp add: w_pub_def results_get_def get_result_def)

section \<open>The escaping of the list file\<close>

lemma escape_quotes_simps:
  "escape_quotes [] = []"
  "escape_quotes (sq # p) = [sq, bs, sq, sq] @ escape_quotes p"
  "c \<noteq> sq \<Longrightarrow> escape_quotes (c # p) = c # escape_quotes p"
  by (simp_all add: escape_quotes_def)

lemma escape_quotes_append: "escape_quotes (p @ q) = escape_quotes p @ escape_quotes q"
  by (simp add: escape_quotes_def)

lemma escape_quotes_plain: "sq \<notin> set p \<Longrightarrow> escape_quotes p = p"
  by (induction p) (auto simp: escape_quotes_simps)

lemma escape_quotes_length:
  "length (escape_quotes p) = length p + 3 * length (filter (\<lambda>c. c = sq) p)"
  by (induction p) (auto simp: escape_quotes_def)

section \<open>The invokers on the events of a process\<close>

text \<open>Chunks only accumulate; the first \<open>error\<close> or \<open>close\<close> event settles the promise of
  \<open>runFFmpeg\<close>, and an \<open>error\<close> event ends \<open>run\<close>.\<close>

lemma runFFmpeg_data:
  "list_all is_data ds \<Longrightarrow>
   foldl runFFmpeg_on c ds
     = c\<lparr>cap_stdout := cap_stdout c @ stdout_text ds, cap_stderr := cap_stderr c @ stderr_text ds\<rparr>"
proof (induction ds arbitrary: c)
  case Nil
  show ?case by simp
next
  case (Cons ev ds)
  then show ?case by (cases ev) simp_all
qed


lemma stderr_text_filter: "stderr_text (filter is_data evs) = stderr_text evs"
  by (induction evs rule: stderr_text.induct) simp_all

lemma stdout_text_filter: "stdout_text (filter is_data evs) = stdout_text evs"
  by (induction evs rule: stdout_text.induct) simp_all

lemma data_only: "list_all is_data (filter is_data evs)"
  by (simp add: list_all_iff)

lemma runFFmpeg_settled:
  "cap_promise c \<noteq> Pending \<Longrightarrow> cap_promise (foldl runFFmpeg_on c evs) = cap_promise c"
proof (induction evs arbitrary: c)
  case Nil
  show ?case by simp
next
  case (Cons ev evs)
  have "cap_promise (runFFmpeg_on c ev) = cap_promise c"
    using Cons.prems by (cases ev; cases "cap_promise c") simp_all
  with Cons show ?case by simp
qed

lemma run_crashed:
  "cap_promise c = Crashed e \<Longrightarrow> foldl run_on c evs = c"
proof (induction evs arbitrary: c)
  case Nil
  show ?case by simp
next
  case (Cons ev evs)
  have "run_on c ev = c"
    using Cons.prems by (cases ev) simp_all
  with Cons show ?case by simp
qed

lemma runFFmpeg_launch_failure:
  "runFFmpeg (ErrorEvent code msg # evs)
     = Rejected (JsError ''Error'' (''spawn ffmpeg failed: '' @ code_or_empty code @ '' '' @ msg))"
  by (simp add: runFFmpeg_def capture0_def runFFmpeg_settled)

lemma run_launch_failure:
  "run (ErrorEvent code msg # evs) = Crashed (JsError ''Error'' msg)"
  by (simp add: run_def capture0_def run_crashed)

lemma runFFmpeg_ran:
  "runFFmpeg (events_of (Ran chunks code signal out))
     = (if code = Some 0 then Resolved
        else Rejected (JsError ''Error''
               (''ffmpeg exited code='' @ show_code code @ '' signal='' @ show_signal signal
                @ nl @ ''STDERR:'' @ nl @ stderr_text chunks
                @ nl @ ''STDOUT:'' @ nl @ stdout_text chunks)))"
  by (simp add: runFFmpeg_def runFFmpeg_data capture0_def stderr_text_filter stdout_text_filter
      data_only)


lemma launch_failure_is_reported:
  "runFFmpeg (events_of (NotStarted code msg errno))
     = Rejected (JsError ''Error'' (''spawn ffmpeg failed: '' @ code_or_empty code @ '' '' @ msg))"
  by (simp add: runFFmpeg_launch_failure)

lemma launch_failure_is_not_reported_by_run:
  "run (events_of (NotStarted code msg errno)) = Crashed (JsError ''Error'' msg)"
  by (simp add: run_launch_failure)

lemma decimal_404: "decimal_nat 404 = ''404''"
  by (simp add: decimal_nat_def digits_before.simps digit_char_def)


section \<open>The steps of a job\<close>

text \<open>What a step that completed has done, and when a step is bound to complete.\<close>

lemma io_bind_DoneE:
  assumes "io_bind m f w = (Done r, w')"
  obtains a w1 where "m w = (Done a, w1)" and "f a w1 = (Done r, w')"
  using assms by (auto simp: io_bind_def split: prod.splits step.splits)

lemma downloadToTmp_Done:
  assumes "downloadToTmp env url fn w = (Done p, w1)"
  shows "p = path_join (env_tmpdir env) fn \<and>
    (\<exists>status chunks.
       env_fetch env (js_to_string url) fn = Response status (Some (Body chunks None)) \<and>
       res_ok status \<and>
       w1 = w\<lparr>files := (files w)(p \<mapsto> concat chunks),
              trace := trace w @ [NetFetch (js_to_string url), FileWrite p]\<rparr>)"
  using assms
  by (auto simp: downloadToTmp_def Let_def log_effect_def
      split: fetch_result.splits option.splits body_stream.splits if_splits)

lemma writeFile_Done:
  assumes "writeFile env dest content w = (Done u, w1)"
  shows "w1 = w\<lparr>files := (files w)(dest \<mapsto> content), trace := trace w @ [FileWrite dest]\<rparr>"
  using assms by (auto simp: writeFile_def log_effect_def split: option.splits)

lemma await_runFFmpeg_Done:
  assumes "await_runFFmpeg env args w = (Done u, w1)"
  shows "runFFmpeg (events_of (env_ffmpeg env args)) = Resolved \<and>
    results w1 = results w \<and>
    trace w1 = trace w @ [Spawn ''ffmpeg'' args] \<and>
    files w1 = (case output_of (env_ffmpeg env args) of
                  None \<Rightarrow> files w
                | Some bytes \<Rightarrow> (files w)(last args \<mapsto> bytes))"
  using assms
  by (auto simp: await_runFFmpeg_def Let_def log_effect_def split: option.splits outcome.splits)

lemma downloadToTmp_Done_store:
  "downloadToTmp env url fn w = (Done p, w1) \<Longrightarrow>
   p = path_join (env_tmpdir env) fn \<and> results w1 = results w"
  by (auto dest!: downloadToTmp_Done)

lemma writeFile_Done_store:
  "writeFile env dest content w = (Done u, w1) \<Longrightarrow> results w1 = results w"
  by (auto dest!: writeFile_Done)

lemma await_runFFmpeg_Done_store:
  "await_runFFmpeg env args w = (Done u, w1) \<Longrightarrow>
   runFFmpeg (events_of (env_ffmpeg env args)) = Resolved \<and> results w1 = results w"
  by (auto dest!: await_runFFmpeg_Done)

lemma downloadToTmp_Done_trace:
  "downloadToTmp env url fn w = (Done p, w1) \<Longrightarrow>
   p = path_join (env_tmpdir env) fn \<and>
   trace w1 = trace w @ [NetFetch (js_to_string url), FileWrite (path_join (env_tmpdir env) fn)]"
  by (auto dest!: downloadToTmp_Done)

lemma writeFile_Done_trace:
  "writeFile env dest content w = (Done u, w1) \<Longrightarrow> trace w1 = trace w @ [FileWrite dest]"
  by (auto dest!: writeFile_Done)

lemma await_runFFmpeg_Done_trace:
  "await_runFFmpeg env args w = (Done u, w1) \<Longrightarrow> trace w1 = trace w @ [Spawn ''ffmpeg'' args]"
  by (auto dest!: await_runFFmpeg_Done)

lemma await_runFFmpeg_Done_files:
  "await_runFFmpeg env args w = (Done u, w1) \<Longrightarrow>
   (case output_of (env_ffmpeg env args) of
      None \<Rightarrow> True
    | Some bytes \<Rightarrow> files w1 (last args) = Some bytes)"
  by (auto dest!: await_runFFmpeg_Done split: option.splits)

lemma unlink_all_results: "results (unlink_all ps w) = results w"
  by (induction ps arbitrary: w) (simp_all add: unlink_quiet_def)

lemma unlink_all_trace: "trace (unlink_all ps w) = trace w @ map FileUnlink ps"
  by (induction ps arbitrary: w) (simp_all add: unlink_quiet_def)

lemma unlink_all_files: "files (unlink_all ps w) p = (if p \<in> set ps then None else files w p)"
  by (induction ps arbitrary: w) (simp_all add: unlink_quiet_def)

lemma last_finalArgs: "last (finalArgs basePath a1 outPath) = outPath"
  by (simp add: finalArgs_def)

lemma final_path_apart:
  "final_path env i \<noteq> base_path env i"
  "final_path env i \<noteq> list_path env i"
  "final_path env i \<noteq> path_join (env_tmpdir env) (scratch_name ''v1'' i ''.mp4'')"
  "final_path env i \<noteq> path_join (env_tmpdir env) (scratch_name ''v2'' i ''.mp4'')"
  "final_path env i \<noteq> path_join (env_tmpdir env) (scratch_name ''v3'' i ''.mp4'')"
  "final_path env i \<noteq> path_join (env_tmpdir env) (scratch_name ''narr'' i ''.mp3'')"
  by (simp_all add: final_path_def base_path_def list_path_def path_join_def scratch_name_def)

lemma downloadToTmp_succeeds:
  "fetch_succeeds env (js_to_string url) fn \<Longrightarrow>
   fst (downloadToTmp env url fn w) = Done (path_join (env_tmpdir env) fn)"
  by (auto simp: fetch_succeeds_def downloadToTmp_def Let_def
      split: fetch_result.splits option.splits body_stream.splits)

lemma writeFile_succeeds:
  "env_write_error env dest = None \<Longrightarrow> fst (writeFile env dest content w) = Done ()"
  by (simp add: writeFile_def)

lemma await_runFFmpeg_succeeds:
  "runFFmpeg (events_of (env_ffmpeg env args)) = Resolved \<Longrightarrow>
   fst (await_runFFmpeg env args w) = Done ()"
  by (simp add: await_runFFmpeg_def Let_def)

lemma io_bind_succeeds:
  assumes "\<And>w. fst (m w) = Done a" and "\<And>w. fst (f a w) = Done r"
  shows "fst (io_bind m f w) = Done r"
proof (cases "m w")
  case (Pair s w1)
  with assms(1) [of w] have "s = Done a" by simp
  with Pair assms(2) [of w1] show ?thesis by (simp add: io_bind_def)
qed

lemma await_runFFmpeg_stuck:
  assumes "fst (await_runFFmpeg env args w) = Stuck"
  shows "\<exists>chunks out. env_ffmpeg env args = NeverEnds chunks out"
proof (cases "env_ffmpeg env args")
  case (NotStarted code msg errno)
  with assms show ?thesis
    by (simp add: await_runFFmpeg_def Let_def runFFmpeg_launch_failure)
next
  case (Ran chunks code signal out)
  have "runFFmpeg (events_of (Ran chunks code signal out)) = Resolved \<or>
      (\<exists>e. runFFmpeg (events_of (Ran chunks code signal out)) = Rejected e)"
    using runFFmpeg_ran [of chunks code signal out]
    by (cases "code = Some 0") simp_all
  with assms Ran show ?thesis
    by (auto simp: await_runFFmpeg_def Let_def)
next
  case (NeverEnds chunks out)
  then show ?thesis by simp
qed

section \<open>What a failing computation leaves behind\<close>

text \<open>The fallible steps only add files and effects, so a chain of them that fails has only
  added; the steps after the last fallible one cannot fail.\<close>

lemma only_adds_refl: "only_adds w w"
  by (simp add: only_adds_def)

lemma only_adds_trans: "only_adds w w1 \<Longrightarrow> only_adds w1 w2 \<Longrightarrow> only_adds w w2"
  unfolding only_adds_def
  by (elim conjE exE, intro conjI) (simp, blast, force)

lemma only_adds_log:
  "\<not> is_ResultSet e \<Longrightarrow> \<not> is_FileUnlink e \<Longrightarrow> only_adds w (log_effect e w)"
  by (simp add: only_adds_def log_effect_def)

lemma only_adds_write:
  "only_adds w (log_effect (FileWrite p) (w\<lparr>files := (files w)(p \<mapsto> content)\<rparr>))"
  by (simp add: only_adds_def log_effect_def)

lemma always_adds_downloadToTmp: "always_adds (downloadToTmp env url fn)"
proof -
  have "only_adds w (snd (downloadToTmp env url fn w))" for w
  proof -
    let ?w1 = "log_effect (NetFetch (js_to_string url)) w"
    have a: "only_adds w ?w1" by (simp add: only_adds_log)
    have b: "only_adds ?w1 (log_effect (FileWrite p) (?w1\<lparr>files := (files ?w1)(p \<mapsto> content)\<rparr>))" for p content
      by (rule only_adds_write)
    show ?thesis
      using a only_adds_trans [OF a b]
      by (simp add: downloadToTmp_def Let_def
          split: fetch_result.splits option.splits body_stream.splits)
  qed
  then show ?thesis by (simp add: always_adds_def)
qed

lemma always_adds_writeFile: "always_adds (writeFile env dest content)"
  by (simp add: always_adds_def writeFile_def only_adds_refl only_adds_write split: option.splits)

lemma always_adds_await_runFFmpeg: "always_adds (await_runFFmpeg env args)"
proof -
  have "only_adds w (snd (await_runFFmpeg env args w))" for w
  proof -
    let ?w1 = "log_effect (Spawn ''ffmpeg'' args) w"
    have a: "only_adds w ?w1" by (simp add: only_adds_log)
    have b: "only_adds ?w1 (?w1\<lparr>files := (files ?w1)(p \<mapsto> bytes)\<rparr>)" for p bytes
      by (simp add: only_adds_def)
    show ?thesis
      using a only_adds_trans [OF a b]
      by (simp add: await_runFFmpeg_def Let_def split: option.splits outcome.splits)
  qed
  then show ?thesis by (simp add: always_adds_def)
qed

lemma fails_adding_bind:
  assumes m: "always_adds m" and f: "\<And>a. fails_adding (f a)"
  shows "fails_adding (io_bind m f)"
proof -
  have "only_adds w (snd (io_bind m f w))" if "\<not> is_done (fst (io_bind m f w))" for w
  proof (cases "m w")
    case (Pair s w1)
    from m Pair have w1: "only_adds w w1" by (auto simp: always_adds_def dest: spec [of _ w])
    show ?thesis
    proof (cases s)
      case (Done a)
      with Pair that have "\<not> is_done (fst (f a w1))" by (simp add: io_bind_def)
      with f have "only_adds w1 (snd (f a w1))" by (simp add: fails_adding_def)
      with w1 Pair Done show ?thesis by (auto simp: io_bind_def intro: only_adds_trans)
    next
      case (Threw e)
      with Pair w1 show ?thesis by (simp add: io_bind_def)
    next
      case Stuck
      with Pair w1 show ?thesis by (simp add: io_bind_def)
    qed
  qed
  then show ?thesis by (simp add: fails_adding_def)
qed

lemma never_fails_bind:
  assumes "never_fails m" and "\<And>a. never_fails (f a)"
  shows "never_fails (io_bind m f)"
proof -
  have "is_done (fst (io_bind m f w))" for w
  proof (cases "m w")
    case (Pair s w1)
    with assms(1) have "is_done s" by (auto simp: never_fails_def dest: spec [of _ w])
    then obtain a where "s = Done a" by (cases s) simp_all
    with Pair assms(2) [of a] show ?thesis by (simp add: io_bind_def never_fails_def)
  qed
  then show ?thesis by (simp add: never_fails_def)
qed

lemma never_fails_do: "never_fails (io_do g)"
  by (simp add: never_fails_def io_do_def)

lemma never_fails_return: "never_fails (io_return a)"
  by (simp add: never_fails_def io_return_def)

lemma never_fails_adding: "never_fails m \<Longrightarrow> fails_adding m"
  by (simp add: never_fails_def fails_adding_def)

lemma fails_keeping_bind:
  assumes m: "always_keeps p m" and f: "\<And>a. fails_keeping p (f a)"
  shows "fails_keeping p (io_bind m f)"
proof -
  have "files (snd (io_bind m f w)) p = files w p" if "\<not> is_done (fst (io_bind m f w))" for w
  proof (cases "m w")
    case (Pair s w1)
    from m Pair have w1: "files w1 p = files w p"
      by (auto simp: always_keeps_def dest: spec [of _ w])
    show ?thesis
    proof (cases s)
      case (Done a)
      with Pair that have "\<not> is_done (fst (f a w1))" by (simp add: io_bind_def)
      with f have "files (snd (f a w1)) p = files w1 p" by (simp add: fails_keeping_def)
      with w1 Pair Done show ?thesis by (simp add: io_bind_def)
    next
      case (Threw e)
      with Pair w1 show ?thesis by (simp add: io_bind_def)
    next
      case Stuck
      with Pair w1 show ?thesis by (simp add: io_bind_def)
    qed
  qed
  then show ?thesis by (simp add: fails_keeping_def)
qed

lemma never_fails_keeping: "never_fails m \<Longrightarrow> fails_keeping p m"
  by (simp add: never_fails_def fails_keeping_def)

lemma always_keeps_downloadToTmp:
  "p \<noteq> path_join (env_tmpdir env) fn \<Longrightarrow> always_keeps p (downloadToTmp env url fn)"
  by (auto simp: always_keeps_def downloadToTmp_def Let_def log_effect_def
      split: fetch_result.splits option.splits body_stream.splits)

lemma always_keeps_writeFile:
  "p \<noteq> dest \<Longrightarrow> always_keeps p (writeFile env dest content)"
  by (auto simp: always_keeps_def writeFile_def log_effect_def split: option.splits)

lemma always_keeps_await_runFFmpeg:
  "output_of (env_ffmpeg env args) = None \<Longrightarrow> always_keeps p (await_runFFmpeg env args)"
  by (auto simp: always_keeps_def await_runFFmpeg_def Let_def log_effect_def split: outcome.splits)

lemma never_stuck_bind:
  assumes "never_stuck m" and "\<And>a. never_stuck (f a)"
  shows "never_stuck (io_bind m f)"
proof -
  have "fst (io_bind m f w) \<noteq> Stuck" for w
  proof (cases "m w")
    case (Pair s w1)
    with assms(1) have "s \<noteq> Stuck" by (auto simp: never_stuck_def dest: spec [of _ w])
    with Pair assms(2) show ?thesis
      by (cases s) (auto simp: io_bind_def never_stuck_def)
  qed
  then show ?thesis by (simp add: never_stuck_def)
qed

lemma never_stuck_downloadToTmp: "never_stuck (downloadToTmp env url fn)"
  by (auto simp: never_stuck_def downloadToTmp_def Let_def
      split: fetch_result.splits option.splits body_stream.splits)

lemma never_stuck_writeFile: "never_stuck (writeFile env dest content)"
  by (auto simp: never_stuck_def writeFile_def split: option.splits)

lemma never_stuck_await_runFFmpeg:
  "\<forall>chunks out. env_ffmpeg env args \<noteq> NeverEnds chunks out \<Longrightarrow>
   never_stuck (await_runFFmpeg env args)"
  unfolding never_stuck_def by (metis await_runFFmpeg_stuck)

lemma never_stuck_do: "never_stuck (io_do g)"
  by (simp add: never_stuck_def io_do_def)

lemma never_stuck_return: "never_stuck (io_return a)"
  by (simp add: never_stuck_def io_return_def)

section \<open>The job\<close>

lemma stitch_job_fails_adding: "fails_adding (stitch_job env req audioUrl videoUrls)"
  unfolding stitch_job_def Let_def
  by (intro fails_adding_bind always_adds_downloadToTmp always_adds_writeFile
      always_adds_await_runFFmpeg never_fails_adding never_fails_bind never_fails_do
      never_fails_return)

lemma stitch_job_not_done:
  assumes "stitch_job env req audioUrl videoUrls w = (s, w1)" and "\<not> is_done s"
  shows "only_adds w w1"
proof -
  have "\<not> is_done (fst (stitch_job env req audioUrl videoUrls w)) \<longrightarrow>
      only_adds w (snd (stitch_job env req audioUrl videoUrls w))"
    using stitch_job_fails_adding [of env req audioUrl videoUrls]
    unfolding fails_adding_def by (rule spec)
  with assms show ?thesis by simp
qed

lemma stitch_job_Done:
  assumes "stitch_job env req audioUrl videoUrls w = (Done r, w')"
  shows "r = Ok200 (req_protocol req @ ''://'' @ show_host (req_host req) @ ''/result/''
                     @ env_random_hex env) (env_random_hex env) \<and>
    runFFmpeg (events_of (env_ffmpeg env
        (finalArgs (base_path env (env_random_hex env))
           (path_join (env_tmpdir env) (scratch_name ''narr'' (env_random_hex env) ''.mp3''))
           (final_path env (env_random_hex env))))) = Resolved \<and>
    results w' = results_set (env_random_hex env)
        \<lparr>filePath = final_path env (env_random_hex env),
           expiresAt = env_now env + RESULT_TTL_MS\<rparr> (results w)"
  using assms
  unfolding stitch_job_def Let_def
  apply (elim io_bind_DoneE)
  apply (drule downloadToTmp_Done_store)+
  apply (drule writeFile_Done_store)
  apply (drule await_runFFmpeg_Done_store)+
  apply (clarsimp simp: io_do_def io_return_def store_result_def log_effect_def
      unlink_quiet_def unlink_all_results simp del: unlink_all.simps)
  done

lemma stitch_job_Done_trace:
  assumes "stitch_job env req audioUrl videoUrls w = (Done r, w')"
  shows "trace w' = trace w @
    [NetFetch (js_to_string (videoUrls ! 0)),
     FileWrite (path_join (env_tmpdir env) (scratch_name ''v1'' (env_random_hex env) ''.mp4'')),
     NetFetch (js_to_string (videoUrls ! 1)),
     FileWrite (path_join (env_tmpdir env) (scratch_name ''v2'' (env_random_hex env) ''.mp4'')),
     NetFetch (js_to_string (videoUrls ! 2)),
     FileWrite (path_join (env_tmpdir env) (scratch_name ''v3'' (env_random_hex env) ''.mp4'')),
     NetFetch (js_to_string audioUrl),
     FileWrite (path_join (env_tmpdir env) (scratch_name ''narr'' (env_random_hex env) ''.mp3'')),
     FileWrite (list_path env (env_random_hex env)),
     Spawn ''ffmpeg'' (baseArgs (list_path env (env_random_hex env)) (base_path env (env_random_hex env))),
     Spawn ''ffmpeg''
       (finalArgs (base_path env (env_random_hex env))
          (path_join (env_tmpdir env) (scratch_name ''narr'' (env_random_hex env) ''.mp3''))
          (final_path env (env_random_hex env))),
     FileUnlink (base_path env (env_random_hex env)),
     ResultSet (env_random_hex env),
     FileUnlink (path_join (env_tmpdir env) (scratch_name ''v1'' (env_random_hex env) ''.mp4'')),
     FileUnlink (path_join (env_tmpdir env) (scratch_name ''v2'' (env_random_hex env) ''.mp4'')),
     FileUnlink (path_join (env_tmpdir env) (scratch_name ''v3'' (env_random_hex env) ''.mp4'')),
     FileUnlink (path_join (env_tmpdir env) (scratch_name ''narr'' (env_random_hex env) ''.mp3'')),
     FileUnlink (list_path env (env_random_hex env))]"
  using assms
  unfolding stitch_job_def Let_def
  apply (elim io_bind_DoneE)
  apply (drule downloadToTmp_Done_trace)+
  apply (drule writeFile_Done_trace)
  apply (drule await_runFFmpeg_Done_trace)+
  apply (clarsimp simp: io_do_def io_return_def store_result_def log_effect_def
      unlink_quiet_def unlink_all_trace simp del: unlink_all.simps)
  done

lemma stitch_job_Done_files:
  assumes "stitch_job env req audioUrl videoUrls w = (Done r, w')"
    and "output_of (env_ffmpeg env
        (finalArgs (base_path env (env_random_hex env))
           (path_join (env_tmpdir env) (scratch_name ''narr'' (env_random_hex env) ''.mp3''))
           (final_path env (env_random_hex env)))) = Some bytes"
  shows "files w' (final_path env (env_random_hex env)) = Some bytes"
  using assms
  unfolding stitch_job_def Let_def
  apply (elim io_bind_DoneE)
  apply (drule downloadToTmp_Done_store)+
  apply (drule writeFile_Done_store)
  apply (drule await_runFFmpeg_Done_store)
  apply (drule await_runFFmpeg_Done_files)
  apply (clarsimp simp: io_do_def io_return_def store_result_def log_effect_def
      unlink_quiet_def unlink_all_files last_finalArgs final_path_apart
      simp del: unlink_all.simps)
  done

lemma stitch_job_succeeds:
  assumes "fetch_succeeds env (js_to_string (videoUrls ! 0)) (scratch_name ''v1'' (env_random_hex env) ''.mp4'')"
    and "fetch_succeeds env (js_to_string (videoUrls ! 1)) (scratch_name ''v2'' (env_random_hex env) ''.mp4'')"
    and "fetch_succeeds env (js_to_string (videoUrls ! 2)) (scratch_name ''v3'' (env_random_hex env) ''.mp4'')"
    and "fetch_succeeds env (js_to_string audioUrl) (scratch_name ''narr'' (env_random_hex env) ''.mp3'')"
    and "env_write_error env (list_path env (env_random_hex env)) = None"
    and "runFFmpeg (events_of (env_ffmpeg env
           (baseArgs (list_path env (env_random_hex env)) (base_path env (env_random_hex env)))))
         = Resolved"
    and "runFFmpeg (events_of (env_ffmpeg env
           (finalArgs (base_path env (env_random_hex env))
              (path_join (env_tmpdir env) (scratch_name ''narr'' (env_random_hex env) ''.mp3''))
              (final_path env (env_random_hex env))))) = Resolved"
  shows "fst (stitch_job env req audioUrl videoUrls w)
     = Done (Ok200 (req_protocol req @ ''://'' @ show_host (req_host req) @ ''/result/''
                     @ env_random_hex env) (env_random_hex env))"
  unfolding stitch_job_def Let_def
  apply (rule io_bind_succeeds [where a = "path_join (env_tmpdir env) (scratch_name ''v1'' (env_random_hex env) ''.mp4'')"])
   apply (rule downloadToTmp_succeeds, rule assms(1))
  apply (rule io_bind_succeeds [where a = "path_join (env_tmpdir env) (scratch_name ''v2'' (env_random_hex env) ''.mp4'')"])
   apply (rule downloadToTmp_succeeds, rule assms(2))
  apply (rule io_bind_succeeds [where a = "path_join (env_tmpdir env) (scratch_name ''v3'' (env_random_hex env) ''.mp4'')"])
   apply (rule downloadToTmp_succeeds, rule assms(3))
  apply (rule io_bind_succeeds [where a = "path_join (env_tmpdir env) (scratch_name ''narr'' (env_random_hex env) ''.mp3'')"])
   apply (rule downloadToTmp_succeeds, rule assms(4))
  apply (rule io_bind_succeeds [where a = "()"])
   apply (rule writeFile_succeeds, rule assms(5))
  apply (rule io_bind_succeeds [where a = "()"])
   apply (rule await_runFFmpeg_succeeds, rule assms(6))
  apply (rule io_bind_succeeds [where a = "()"])
   apply (rule await_runFFmpeg_succeeds, rule assms(7))
  apply (simp add: io_bind_def io_do_def io_return_def)
  done

lemma stitch_job_without_ffmpeg:
  assumes "\<forall>args. \<exists>code msg errno. env_ffmpeg env args = NotStarted code msg errno"
  shows "fails_keeping (final_path env (env_random_hex env)) (stitch_job env req audioUrl videoUrls)"
proof -
  have out: "output_of (env_ffmpeg env args) = None" for args
    using assms by (metis output_of.simps(1))
  show ?thesis
    unfolding stitch_job_def Let_def
    by (intro fails_keeping_bind always_keeps_downloadToTmp always_keeps_writeFile
        always_keeps_await_runFFmpeg never_fails_keeping never_fails_bind never_fails_do
        never_fails_return final_path_apart out)
qed

lemma stitch_job_responds:
  assumes "\<forall>args chunks out. env_ffmpeg env args \<noteq> NeverEnds chunks out"
  shows "fst (stitch_job env req audioUrl videoUrls w) \<noteq> Stuck"
proof -
  have ends: "\<forall>chunks out. env_ffmpeg env args \<noteq> NeverEnds chunks out" for args
    using assms by simp
  have "never_stuck (stitch_job env req audioUrl videoUrls)"
    unfolding stitch_job_def Let_def
    by (intro never_stuck_bind never_stuck_downloadToTmp never_stuck_writeFile
        never_stuck_await_runFFmpeg never_stuck_do never_stuck_return ends)
  then show ?thesis by (simp add: never_stuck_def)
qed


section \<open>The handler\<close>

text \<open>The handler in terms of the job: what each kind of response says about the run.\<close>

lemma post_stitch_cases:
  assumes "post_stitch env req w = (r, w')"
  shows "(r = Unauthorized401 \<and> w' = w) \<or>
    (\<exists>msg v. r = BadRequest400 msg v \<and> w' = w) \<or>
    (\<exists>s. stitch_job env req (audio_of (req_body req)) (elems (videos_of (req_body req))) w = (s, w') \<and>
       (case s of Done r1 \<Rightarrow> r = r1 | Threw e \<Rightarrow> r = ServerError500 (error_text e)
        | Stuck \<Rightarrow> r = NoResponse))"
  using assms
  by (auto simp: post_stitch_def Let_def split: if_splits prod.splits step.splits)

lemma post_stitch_failure:
  assumes "post_stitch env req w = (r, w')" and "\<forall>url ident. r \<noteq> Ok200 url ident"
  shows "only_adds w w'"
proof -
  from post_stitch_cases [OF assms(1)]
  consider "w' = w"
    | s where "stitch_job env req (audio_of (req_body req)) (elems (videos_of (req_body req))) w = (s, w')"
      and "(case s of Done r1 \<Rightarrow> r = r1 | Threw e \<Rightarrow> r = ServerError500 (error_text e)
        | Stuck \<Rightarrow> r = NoResponse)"
    by blast
  then show ?thesis
  proof cases
    case 1
    then show ?thesis by (simp add: only_adds_refl)
  next
    case 2
    show ?thesis
    proof (cases s)
      case (Done r1)
      with 2 assms(2) show ?thesis by (auto dest: stitch_job_Done)
    next
      case (Threw e)
      with 2 show ?thesis by (auto intro: stitch_job_not_done)
    next
      case Stuck
      with 2 show ?thesis by (auto intro: stitch_job_not_done)
    qed
  qed
qed

lemma post_stitch_success:
  assumes "post_stitch env req w = (Ok200 url ident, w')"
  shows "stitch_job env req (audio_of (req_body req)) (elems (videos_of (req_body req))) w
      = (Done (Ok200 url ident), w')"
proof -
  from post_stitch_cases [OF assms]
  obtain s where s: "stitch_job env req (audio_of (req_body req)) (elems (videos_of (req_body req))) w = (s, w')"
    and r: "(case s of Done r1 \<Rightarrow> Ok200 url ident = r1 | Threw e \<Rightarrow> Ok200 url ident = ServerError500 (error_text e)
        | Stuck \<Rightarrow> Ok200 url ident = NoResponse)"
    by auto
  from r have "s = Done (Ok200 url ident)" by (cases s) simp_all
  with s show ?thesis by simp
qed

lemma post_stitch_valid:
  "passes_validation env req \<Longrightarrow>
   post_stitch env req w =
     (case stitch_job env req (audio_of (req_body req)) (elems (videos_of (req_body req))) w of
        (Done r, w1) \<Rightarrow> (r, w1)
      | (Threw e, w1) \<Rightarrow> (ServerError500 (error_text e), w1)
      | (Stuck, w1) \<Rightarrow> (NoResponse, w1))"
  by (simp add: passes_validation_def post_stitch_def Let_def)

lemma post_stitch_succeeds:
  assumes "passes_validation env req"
    and "fetch_succeeds env (js_to_string (elems (videos_of (req_body req)) ! 0))
           (scratch_name ''v1'' (env_random_hex env) ''.mp4'')"
    and "fetch_succeeds env (js_to_string (elems (videos_of (req_body req)) ! 1))
           (scratch_name ''v2'' (env_random_hex env) ''.mp4'')"
    and "fetch_succeeds env (js_to_string (elems (videos_of (req_body req)) ! 2))
           (scratch_name ''v3'' (env_random_hex env) ''.mp4'')"
    and "fetch_succeeds env (js_to_string (audio_of (req_body req)))
           (scratch_name ''narr'' (env_random_hex env) ''.mp3'')"
    and "env_write_error env (list_path env (env_random_hex env)) = None"
    and "runFFmpeg (events_of (env_ffmpeg env
           (baseArgs (list_path env (env_random_hex env)) (base_path env (env_random_hex env)))))
         = Resolved"
    and "runFFmpeg (events_of (env_ffmpeg env
           (finalArgs (base_path env (env_random_hex env))
              (path_join (env_tmpdir env) (scratch_name ''narr'' (env_random_hex env) ''.mp3''))
              (final_path env (env_random_hex env))))) = Resolved"
  shows "fst (post_stitch env req w)
     = Ok200 (req_protocol req @ ''://'' @ show_host (req_host req) @ ''/result/''
               @ env_random_hex env) (env_random_hex env)"
proof -
  have "fst (stitch_job env req (audio_of (req_body req)) (elems (videos_of (req_body req))) w)
     = Done (Ok200 (req_protocol req @ ''://'' @ show_host (req_host req) @ ''/result/''
                     @ env_random_hex env) (env_random_hex env))"
    by (rule stitch_job_succeeds) (rule assms)+
  with assms(1) show ?thesis
    by (cases "stitch_job env req (audio_of (req_body req)) (elems (videos_of (req_body req))) w")
      (simp add: post_stitch_valid)
qed

lemma post_stitch_published:
  assumes "post_stitch env req w = (Ok200 url ident, w')"
  shows "ident = env_random_hex env \<and>
    results w' = results_set ident
        \<lparr>filePath = final_path env ident, expiresAt = env_now env + RESULT_TTL_MS\<rparr> (results w) \<and>
    (\<forall>bytes. output_of (env_ffmpeg env
        (finalArgs (base_path env ident)
           (path_join (env_tmpdir env) (scratch_name ''narr'' ident ''.mp3''))
           (final_path env ident))) = Some bytes \<longrightarrow>
       files w' (final_path env ident) = Some bytes)"
proof -
  note job = post_stitch_success [OF assms]
  from stitch_job_Done [OF job] have ident: "ident = env_random_hex env"
    and store: "results w' = results_set (env_random_hex env)
        \<lparr>filePath = final_path env (env_random_hex env),
           expiresAt = env_now env + RESULT_TTL_MS\<rparr> (results w)"
    by simp_all
  from stitch_job_Done_files [OF job] ident store show ?thesis by simp
qed

lemma results_set_store_ok:
  assumes "store_ok tmp w" and "results w' = results_set i \<lparr>filePath = path_join tmp (scratch_name ''final'' i ''.mp4''), expiresAt = t\<rparr> (results w)"
  shows "store_ok tmp w'"
proof -
  from assms(1) have d: "distinct (map fst (results w))"
    and p: "\<forall>e \<in> set (results w). filePath (snd e) = path_join tmp (scratch_name ''final'' (fst e) ''.mp4'')"
    by (simp_all add: store_ok_def list_all_iff)
  have "set (AList.update i m xs) \<subseteq> insert (i, m) (set xs)" for m :: result_meta and xs
    by (induction xs) auto
  with p assms(2) have "\<forall>e \<in> set (results w'). filePath (snd e) = path_join tmp (scratch_name ''final'' (fst e) ''.mp4'')"
    by (fastforce simp: results_set_def)
  with d assms(2) show ?thesis
    by (simp add: store_ok_def list_all_iff results_set_def distinct_update)
qed

lemma post_stitch_store_ok:
  assumes "store_ok (env_tmpdir env) w"
  shows "store_ok (env_tmpdir env) (snd (post_stitch env req w))"
proof (cases "post_stitch env req w")
  case (Pair r w')
  show ?thesis
  proof (cases "\<exists>url ident. r = Ok200 url ident")
    case True
    then obtain url ident where "r = Ok200 url ident" by blast
    with Pair post_stitch_published [of env req w url ident w']
    have "results w' = results_set ident
        \<lparr>filePath = path_join (env_tmpdir env) (scratch_name ''final'' ident ''.mp4''),
           expiresAt = env_now env + RESULT_TTL_MS\<rparr> (results w)"
      by (simp add: final_path_def)
    with assms have "store_ok (env_tmpdir env) w'" by (rule results_set_store_ok)
    with Pair show ?thesis by simp
  next
    case False
    with Pair have "only_adds w w'" by (simp add: post_stitch_failure)
    with assms Pair show ?thesis by (simp add: only_adds_def store_ok_def)
  qed
qed

lemma failure_deletes_nothing:
  assumes "post_stitch env req w = (r, w')" and "\<forall>url ident. r \<noteq> Ok200 url ident"
  shows "results w' = results w \<and>
    (\<forall>p. files w p \<noteq> None \<longrightarrow> files w' p \<noteq> None) \<and>
    (\<exists>es. trace w' = trace w @ es \<and> list_all (\<lambda>e. \<not> is_FileUnlink e) es)"
  using post_stitch_failure [OF assms]
  by (auto simp: only_adds_def list_all_iff)

lemma launch_failure_fails_the_job:
  assumes valid: "passes_validation env req"
    and missing: "\<forall>args. \<exists>code msg errno. env_ffmpeg env args = NotStarted code msg errno"
    and run: "post_stitch env req w = (r, w')"
  shows "(\<exists>msg. r = ServerError500 msg) \<and> results w' = results w \<and>
    files w' (final_path env (env_random_hex env)) = files w (final_path env (env_random_hex env))"
proof (cases "stitch_job env req (audio_of (req_body req)) (elems (videos_of (req_body req))) w")
  case (Pair s w1)
  have rejected: "\<exists>e. runFFmpeg (events_of (env_ffmpeg env args)) = Rejected e" for args
    using missing by (metis launch_failure_is_reported)
  have not_done: "\<not> is_done s"
  proof
    assume "is_done s"
    then obtain r1 where "s = Done r1" by (cases s) simp_all
    with Pair stitch_job_Done [of env req _ _ w r1 w1] rejected show False
      by (metis outcome.distinct(7))
  qed
  have "\<forall>args chunks out. env_ffmpeg env args \<noteq> NeverEnds chunks out"
    using missing by (metis proc_run.distinct(3))
  from stitch_job_responds [OF this, of req] Pair have not_stuck: "s \<noteq> Stuck"
    by (metis fst_conv)
  from not_done not_stuck obtain e where s: "s = Threw e" by (cases s) simp_all
  with valid run Pair have r: "r = ServerError500 (error_text e)" and w': "w' = w1"
    by (simp_all add: post_stitch_valid)
  from Pair not_done have "only_adds w w1" by (rule stitch_job_not_done)
  moreover from stitch_job_without_ffmpeg [OF missing, of req] Pair not_done
  have "files w1 (final_path env (env_random_hex env)) = files w (final_path env (env_random_hex env))"
    unfolding fails_keeping_def by (metis fst_conv snd_conv)
  ultimately show ?thesis using r w' by (simp add: only_adds_def)
qed




lemma bad_url_iff: "bad_url v \<longleftrightarrow> \<not> http_string v"
  by (cases v) (auto simp: bad_url_def startsWith_def)

lemma find_first_bad:
  "list_all http_string good \<Longrightarrow> \<not> http_string b \<Longrightarrow>
   js_find bad_url (good @ b # rest) = b"
  by (induction good) (auto simp: js_find_def bad_url_iff)

lemma find_no_bad: "list_all http_string xs \<Longrightarrow> js_find bad_url xs = JUndefined"
  by (induction xs) (auto simp: js_find_def bad_url_iff)

section \<open>Runs on the concrete inputs\<close>

lemmas handler_defs =
  post_stitch_def unauthorized_def audio_of_def videos_of_def nullish_or_def bad_url_def
  startsWith_def js_find_def stitch_job_def io_bind_def downloadToTmp_def Let_def log_effect_def
  res_ok_def path_join_def scratch_name_def writeFile_def list_path_def final_path_def base_path_def
  await_runFFmpeg_def runFFmpeg_def capture0_def io_do_def io_return_def
  store_result_def unlink_quiet_def decimal_404

lemma env_ok_run:
  "fst (post_stitch env_ok req_ok w) = Ok200 ''http://svc/result/00ff'' ''00ff''"
proof -
  have ev: "runFFmpeg (events_of (env_ffmpeg env_ok args)) = Resolved" for args
    by (simp add: env_ok_def runFFmpeg_def capture0_def)
  have fe: "fetch_succeeds env_ok url fn" for url fn
    by (simp add: fetch_succeeds_def env_ok_def res_ok_def)
  have "passes_validation env_ok req_ok"
    by (simp add: passes_validation_def unauthorized_def env_ok_def req_ok_def audio_of_def
        videos_of_def nullish_or_def bad_url_def startsWith_def js_find_def)
  then have "fst (post_stitch env_ok req_ok w)
     = Ok200 (req_protocol req_ok @ ''://'' @ show_host (req_host req_ok) @ ''/result/''
               @ env_random_hex env_ok) (env_random_hex env_ok)"
    by (rule post_stitch_succeeds) (simp_all add: ev fe, simp add: env_ok_def)
  then show ?thesis by (simp add: env_ok_def req_ok_def)
qed

lemma env_ok_published:
  "results (snd (post_stitch env_ok req_ok w_empty))
     = [(''00ff'', \<lparr>filePath = ''/tmp/final_00ff.mp4'', expiresAt = 1801000\<rparr>)] \<and>
   files (snd (post_stitch env_ok req_ok w_empty)) ''/tmp/final_00ff.mp4'' = Some ''mp4''"
proof -
  have "post_stitch env_ok req_ok w_empty
      = (Ok200 ''http://svc/result/00ff'' ''00ff'', snd (post_stitch env_ok req_ok w_empty))"
    using env_ok_run [of w_empty] by (simp add: prod_eq_iff)
  from post_stitch_published [OF this] show ?thesis
    by (simp add: env_ok_def w_empty_def results_set_def final_path_def path_join_def
        scratch_name_def RESULT_TTL_MS_def)
qed

lemma null_video_entry_passes_validation:
  "post_stitch env_strict req_null_video w_empty
     = (ServerError500 ''Failed to parse URL from null'',
        \<lparr>files = [''/tmp/v1_00ff.mp4'' \<mapsto> ''abcd''],
         results = [],
         trace = [NetFetch ''http://cdn/1.mp4'', FileWrite ''/tmp/v1_00ff.mp4'',
                  NetFetch ''null'']\<rparr>)"
  by (simp add: handler_defs env_strict_def env_ok_def req_null_video_def req_ok_def w_empty_def)

lemma env_no_ffmpeg_run:
  "fst (post_stitch env_no_ffmpeg req_ok w_empty)
     = ServerError500 ''spawn ffmpeg failed: ENOENT spawn ffmpeg ENOENT'' \<and>
   results (snd (post_stitch env_no_ffmpeg req_ok w_empty)) = [] \<and>
   files (snd (post_stitch env_no_ffmpeg req_ok w_empty)) ''/tmp/final_00ff.mp4'' = None"
  by (simp add: handler_defs env_no_ffmpeg_def env_ok_def req_ok_def w_empty_def)

section \<open>The store over the life of the process\<close>

lemma w_empty_store_ok: "store_ok tmp w_empty"
  by (simp add: store_ok_def w_empty_def)

lemma after_event_store_ok:
  "store_ok tmp w \<Longrightarrow> same_tmpdir tmp ev \<Longrightarrow> store_ok tmp (after_event ev w)"
  by (cases ev) (auto simp: post_stitch_store_ok cleanupResults_store_ok get_result_world)

lemma store_ok_invariant:
  "list_all (same_tmpdir tmp) evs \<Longrightarrow> store_ok tmp (foldl (\<lambda>w ev. after_event ev w) w_empty evs)"
proof -
  have "store_ok tmp w \<Longrightarrow> list_all (same_tmpdir tmp) evs \<Longrightarrow>
      store_ok tmp (foldl (\<lambda>w ev. after_event ev w) w evs)" for w
    by (induction evs arbitrary: w) (auto simp: after_event_store_ok)
  then show "list_all (same_tmpdir tmp) evs \<Longrightarrow> ?thesis"
    by (simp add: w_empty_store_ok)
qed

section \<open>The claims\<close>

subsection \<open>Expiry of a result\<close>

text \<open>
  Claim C1, as amended. The retrieval handler never reads the clock, so an entry is served
  for as long as it is in the map: also after its expiry time, until a sweep has run. For a
  store the handler filled and an entry whose file is on disk: retrieval streams the file;
  it still does after any sweeps that all ran before the expiry time; and after any
  sweeps of which one ran at or after the expiry time the identifier is not found, as
  one that was never stored, and the file is deleted.
\<close>

theorem expiry_takes_effect_at_the_sweep:
  assumes ok: "store_ok tmp w"
    and entry: "results_get (results w) ident = Some meta"
    and onDisk: "files w (filePath meta) = Some bytes"
  shows "fst (get_result ident w) = Stream200 (''final_'' @ ident @ ''.mp4'') (filePath meta) bytes \<and>
    ((\<forall>t \<in> set ts. t < expiresAt meta) \<longrightarrow>
       fst (get_result ident (sweeps ts w))
         = Stream200 (''final_'' @ ident @ ''.mp4'') (filePath meta) bytes) \<and>
    ((\<exists>t \<in> set ts. expiresAt meta \<le> t) \<longrightarrow>
       fst (get_result ident (sweeps ts w)) = NotFound404 \<and>
       files (sweeps ts w) (filePath meta) = None)"
proof -
  from ok have d: "distinct (map fst (results w))" by (simp add: store_ok_def)
  have now: "fst (get_result ident w) = Stream200 (''final_'' @ ident @ ''.mp4'') (filePath meta) bytes"
    using entry onDisk by (simp add: get_result_def)
  have live: "fst (get_result ident (sweeps ts w))
         = Stream200 (''final_'' @ ident @ ''.mp4'') (filePath meta) bytes"
    if "\<forall>t \<in> set ts. t < expiresAt meta"
  proof -
    from that d entry have "results_get (results (sweeps ts w)) ident = Some meta"
      by (simp add: sweeps_live)
    moreover from that ok entry onDisk have "files (sweeps ts w) (filePath meta) = Some bytes"
      by (simp add: sweeps_live_file)
    ultimately show ?thesis by (simp add: get_result_def)
  qed
  have gone: "fst (get_result ident (sweeps ts w)) = NotFound404 \<and>
       files (sweeps ts w) (filePath meta) = None"
    if "\<exists>t \<in> set ts. expiresAt meta \<le> t"
  proof -
    from that d entry have "results_get (results (sweeps ts w)) ident = None"
      by (simp add: sweeps_expired)
    moreover from that d entry have "files (sweeps ts w) (filePath meta) = None"
      by (simp add: sweeps_expired_file)
    ultimately show ?thesis by (simp add: get_result_def)
  qed
  from now live gone show ?thesis by blast
qed

text \<open>The theorem at a store of two entries, swept just before and exactly at the expiry
  time 1801000 of the second.\<close>

theorem expiry_takes_effect_at_the_sweep_witness:
  "fst (get_result ''00ff'' w_pub) = Stream200 ''final_00ff.mp4'' ''/tmp/final_00ff.mp4'' ''mp4'' \<and>
   fst (get_result ''00ff'' (sweeps [1741000, 1800999] w_pub))
     = Stream200 ''final_00ff.mp4'' ''/tmp/final_00ff.mp4'' ''mp4'' \<and>
   fst (get_result ''00ff'' (sweeps [1741000, 1801000] w_pub)) = NotFound404 \<and>
   files (sweeps [1741000, 1801000] w_pub) ''/tmp/final_00ff.mp4'' = None"
  using expiry_takes_effect_at_the_sweep [of "''/tmp''" w_pub "''00ff''"
      "\<lparr>filePath = ''/tmp/final_00ff.mp4'', expiresAt = 1801000\<rparr>" "''mp4''" "[1741000, 1800999]"]
    expiry_takes_effect_at_the_sweep [of "''/tmp''" w_pub "''00ff''"
      "\<lparr>filePath = ''/tmp/final_00ff.mp4'', expiresAt = 1801000\<rparr>" "''mp4''" "[1741000, 1801000]"]
    w_pub_facts
  by simp

text \<open>
  Claim C1 as stated fails. A job published at clock 1000 stores an entry that expires at
  \<open>1000 + RESULT_TTL_MS\<close>, which is 1801000. The state it leaves, also after a sweep at
  1800999, is the state every later read finds until the next sweep runs, whatever the
  clock says by then: a read at 1801000 or later streams the file, while an identifier
  that was never stored is not found.
\<close>

theorem published_entry_is_served_after_expiry_counterexample:
  "env_now env_ok = 1000 \<and>
   results_get (results (snd (post_stitch env_ok req_ok w_empty))) ''00ff''
     = Some \<lparr>filePath = ''/tmp/final_00ff.mp4'', expiresAt = 1000 + RESULT_TTL_MS\<rparr> \<and>
   fst (get_result ''00ff'' (snd (post_stitch env_ok req_ok w_empty)))
     = Stream200 ''final_00ff.mp4'' ''/tmp/final_00ff.mp4'' ''mp4'' \<and>
   fst (get_result ''00ff'' (sweeps [1800999] (snd (post_stitch env_ok req_ok w_empty))))
     = Stream200 ''final_00ff.mp4'' ''/tmp/final_00ff.mp4'' ''mp4'' \<and>
   fst (get_result ''ffff'' (snd (post_stitch env_ok req_ok w_empty))) = NotFound404"
  using env_ok_published
  by (simp add: get_result_def results_get_def RESULT_TTL_MS_def env_ok_def cleanupResults_def)

subsection \<open>Scratch files of a failed job\<close>

text \<open>
  Claim C2, on the failing input. The second video answers 404: the handler responds 500
  with the message of the fetch, and the first video, fetched before, is still on disk;
  the only effects are the two fetches and the one write. The \<open>catch\<close> block deletes
  nothing, while the path through a successful run deletes every scratch file.
\<close>

theorem failed_download_leaves_the_fetched_files:
  "post_stitch env_404 req_ok w_empty
     = (ServerError500 ''Failed to download http://cdn/2.mp4 (HTTP 404)'',
        \<lparr>files = [''/tmp/v1_00ff.mp4'' \<mapsto> ''abcd''],
         results = [],
         trace = [NetFetch ''http://cdn/1.mp4'', FileWrite ''/tmp/v1_00ff.mp4'',
                  NetFetch ''http://cdn/2.mp4'']\<rparr>)"
  by (simp add: handler_defs env_404_def env_ok_def req_ok_def w_empty_def)

text \<open>The same run, read off the theorem: the response, the file left behind, and no
  deletion among the effects.\<close>

theorem failed_download_leaves_the_fetched_files_witness:
  "fst (post_stitch env_404 req_ok w_empty)
     = ServerError500 ''Failed to download http://cdn/2.mp4 (HTTP 404)'' \<and>
   files (snd (post_stitch env_404 req_ok w_empty)) ''/tmp/v1_00ff.mp4'' = Some ''abcd'' \<and>
   list_all (\<lambda>e. \<not> is_FileUnlink e) (trace (snd (post_stitch env_404 req_ok w_empty)))"
  using failed_download_leaves_the_fetched_files by simp

subsection \<open>Validation of a submission\<close>

text \<open>
  Claim C3, as amended. The handler accepts as a URL any non-empty string that begins with
  \<open>http\<close>. A request in which the narration value (\<open>audioUrl\<close>, else
  \<open>narrationUrl\<close>) is not such a string, or the video list is not an array of exactly
  three elements, or the first element of the list that is not such a string is a truthy
  value, gets no effect at all: the state is returned unchanged, with status 400 (or 401
  when the key check rejects the request first).
\<close>

theorem invalid_submission_is_rejected_before_any_effect:
  assumes "\<not> http_string (audio_of (req_body req)) \<or>
      (\<forall>xs. videos_of (req_body req) = JArr xs \<longrightarrow> length xs \<noteq> 3) \<or>
      (\<exists>good b rest. videos_of (req_body req) = JArr (good @ b # rest) \<and>
         list_all http_string good \<and> \<not> http_string b \<and> truthy b)"
  shows "snd (post_stitch env req w) = w \<and>
    (if unauthorized env req then fst (post_stitch env req w) = Unauthorized401
     else \<exists>msg v. fst (post_stitch env req w) = BadRequest400 msg v)"
proof (cases "unauthorized env req")
  case True
  then show ?thesis by (simp add: post_stitch_def)
next
  case False
  from assms consider
      (audio) "bad_url (audio_of (req_body req))"
    | (shape) "\<not> bad_url (audio_of (req_body req))"
        "\<not> is_array (videos_of (req_body req)) \<or> length (elems (videos_of (req_body req))) \<noteq> 3"
    | (entry) "\<not> bad_url (audio_of (req_body req))"
        "is_array (videos_of (req_body req))" "length (elems (videos_of (req_body req))) = 3"
        "truthy (js_find bad_url (elems (videos_of (req_body req))))"
  proof -
    have no_triple: "\<not> is_array v \<or> length (elems v) \<noteq> 3"
      if "\<forall>xs. v = JArr xs \<longrightarrow> length xs \<noteq> 3" for v
      using that by (cases v) auto
    have found: "is_array v \<and> truthy (js_find bad_url (elems v))"
      if "v = JArr (good @ b # rest)" "list_all http_string good" "\<not> http_string b" "truthy b"
      for v good b rest
      using that by (simp add: find_first_bad)
    from assms no_triple found show ?thesis
      by (metis bad_url_iff audio shape entry)
  qed
  then show ?thesis
  proof cases
    case audio
    with False show ?thesis by (simp add: post_stitch_def Let_def)
  next
    case shape
    with False show ?thesis by (simp add: post_stitch_def Let_def)
  next
    case entry
    with False show ?thesis by (simp add: post_stitch_def Let_def)
  qed
qed

text \<open>The theorem at a body without a narration field, and at a list whose second entry
  has the scheme \<open>ftp\<close>.\<close>

theorem invalid_submission_is_rejected_before_any_effect_witness:
  "post_stitch env_ok (req_ok\<lparr>req_body := JObj [(''videos'', JArr [])]\<rparr>) w_empty
     = (BadRequest400 ''audioUrl/narrationUrl missing/invalid'' JUndefined, w_empty) \<and>
   post_stitch env_ok
     (req_ok\<lparr>req_body := JObj [(''narrationUrl'', JStr ''http://cdn/n.mp3''),
                                  (''videos'', JArr [JStr ''http://cdn/1.mp4'', JStr ''ftp://cdn/2.mp4'',
                                                    JStr ''http://cdn/3.mp4''])]\<rparr>) w_empty
     = (BadRequest400 ''One of the video URLs is invalid'' (JStr ''ftp://cdn/2.mp4''), w_empty)"
proof -
  let ?r1 = "req_ok\<lparr>req_body := JObj [(''videos'', JArr [])]\<rparr>"
  let ?r2 = "req_ok\<lparr>req_body := JObj [(''narrationUrl'', JStr ''http://cdn/n.mp3''),
                                  (''videos'', JArr [JStr ''http://cdn/1.mp4'', JStr ''ftp://cdn/2.mp4'',
                                                    JStr ''http://cdn/3.mp4''])]\<rparr>"
  have h1: "\<not> http_string (audio_of (req_body ?r1))"
    by (simp add: audio_of_def nullish_or_def)
  have h2: "\<exists>good b rest. videos_of (req_body ?r2) = JArr (good @ b # rest) \<and>
         list_all http_string good \<and> \<not> http_string b \<and> truthy b"
    by (rule exI [where x = "[JStr ''http://cdn/1.mp4'']"], rule exI [where x = "JStr ''ftp://cdn/2.mp4''"],
        rule exI [where x = "[JStr ''http://cdn/3.mp4'']"])
      (simp add: videos_of_def nullish_or_def startsWith_def)
  from invalid_submission_is_rejected_before_any_effect [of ?r1 env_ok w_empty] h1
    invalid_submission_is_rejected_before_any_effect [of ?r2 env_ok w_empty] h2
  have "snd (post_stitch env_ok ?r1 w_empty) = w_empty" "snd (post_stitch env_ok ?r2 w_empty) = w_empty"
    by simp_all
  moreover have "fst (post_stitch env_ok ?r1 w_empty)
      = BadRequest400 ''audioUrl/narrationUrl missing/invalid'' JUndefined"
    by (simp add: handler_defs env_ok_def req_ok_def)
  moreover have "fst (post_stitch env_ok ?r2 w_empty)
      = BadRequest400 ''One of the video URLs is invalid'' (JStr ''ftp://cdn/2.mp4'')"
    by (simp add: handler_defs env_ok_def req_ok_def)
  ultimately show ?thesis by (simp add: prod_eq_iff)
qed

text \<open>
  Claim C3 as stated fails: \<open>httpfoo\<close> is no URL, yet the request passes validation,
  the first video is fetched and written to disk, and the failure of the second fetch is
  answered with status 500.
\<close>

theorem prefix_http_passes_validation_counterexample:
  "\<not> spec_http_url (JStr ''httpfoo'') \<and>
   post_stitch env_strict req_httpfoo w_empty
     = (ServerError500 ''Failed to parse URL from httpfoo'',
        \<lparr>files = [''/tmp/v1_00ff.mp4'' \<mapsto> ''abcd''],
         results = [],
         trace = [NetFetch ''http://cdn/1.mp4'', FileWrite ''/tmp/v1_00ff.mp4'',
                  NetFetch ''httpfoo'']\<rparr>)"
  by (simp add: handler_defs env_strict_def env_ok_def req_httpfoo_def req_ok_def w_empty_def)

subsection \<open>Publication of a result\<close>

text \<open>
  Claim C4. Whatever the environment does, a run of the handler ends in one of two ways.
  Either it responds 200 with the job identifier: then the invoker resolved on the final
  mux, the result map is the old one with the entry of this job set, and among the
  effects of the run the one insertion into the map comes after the final mux was
  spawned and the base clip deleted. Or it responds otherwise (401, 400, 500, or not at
  all): then the result map is unchanged and nothing was inserted.
\<close>

theorem result_entry_only_after_final_mux:
  assumes "post_stitch env req w = (r, w')"
  shows "(\<exists>url.
      r = Ok200 url (env_random_hex env) \<and>
      runFFmpeg (events_of (env_ffmpeg env
          (finalArgs (base_path env (env_random_hex env))
             (path_join (env_tmpdir env) (scratch_name ''narr'' (env_random_hex env) ''.mp3''))
             (final_path env (env_random_hex env))))) = Resolved \<and>
      results w' = results_set (env_random_hex env)
          \<lparr>filePath = final_path env (env_random_hex env),
             expiresAt = env_now env + RESULT_TTL_MS\<rparr> (results w) \<and>
      (\<exists>before after.
         trace w' = trace w @ before
           @ [Spawn ''ffmpeg''
                (finalArgs (base_path env (env_random_hex env))
                   (path_join (env_tmpdir env) (scratch_name ''narr'' (env_random_hex env) ''.mp3''))
                   (final_path env (env_random_hex env))),
              FileUnlink (base_path env (env_random_hex env)),
              ResultSet (env_random_hex env)]
           @ after \<and>
         list_all (\<lambda>e. \<not> is_ResultSet e) (before @ after)))
    \<or>
     ((\<forall>url ident. r \<noteq> Ok200 url ident) \<and>
      results w' = results w \<and>
      (\<exists>es. trace w' = trace w @ es \<and> list_all (\<lambda>e. \<not> is_ResultSet e) es))"
proof (cases "\<exists>url ident. r = Ok200 url ident")
  case True
  then obtain url ident where r: "r = Ok200 url ident" by blast
  with assms have job: "stitch_job env req (audio_of (req_body req))
      (elems (videos_of (req_body req))) w = (Done (Ok200 url ident), w')"
    by (simp add: post_stitch_success)
  note d = stitch_job_Done [OF job] and t = stitch_job_Done_trace [OF job]
  from d have ident: "ident = env_random_hex env" by simp
  have "\<exists>before after.
         trace w' = trace w @ before
           @ [Spawn ''ffmpeg''
                (finalArgs (base_path env (env_random_hex env))
                   (path_join (env_tmpdir env) (scratch_name ''narr'' (env_random_hex env) ''.mp3''))
                   (final_path env (env_random_hex env))),
              FileUnlink (base_path env (env_random_hex env)),
              ResultSet (env_random_hex env)]
           @ after \<and>
         list_all (\<lambda>e. \<not> is_ResultSet e) (before @ after)"
    apply (rule exI [where x = "take 10 (drop (length (trace w)) (trace w'))"])
    apply (rule exI [where x = "drop 13 (drop (length (trace w)) (trace w'))"])
    apply (simp add: t)
    done
  with r ident d show ?thesis by simp
next
  case False
  with assms have "only_adds w w'" by (simp add: post_stitch_failure)
  then have "results w' = results w \<and>
      (\<exists>es. trace w' = trace w @ es \<and> list_all (\<lambda>e. \<not> is_ResultSet e) es)"
    by (auto simp: only_adds_def list_all_iff)
  with False show ?thesis by simp
qed

text \<open>The theorem at a run in which everything succeeds and at one in which a fetch
  fails.\<close>

theorem result_entry_only_after_final_mux_witness:
  "fst (post_stitch env_ok req_ok w_empty) = Ok200 ''http://svc/result/00ff'' ''00ff'' \<and>
   results (snd (post_stitch env_ok req_ok w_empty))
     = results_set ''00ff'' \<lparr>filePath = ''/tmp/final_00ff.mp4'', expiresAt = 1801000\<rparr> [] \<and>
   fst (post_stitch env_404 req_ok w_empty)
     = ServerError500 ''Failed to download http://cdn/2.mp4 (HTTP 404)'' \<and>
   results (snd (post_stitch env_404 req_ok w_empty)) = []"
proof -
  let ?ok = "post_stitch env_ok req_ok w_empty" and ?bad = "post_stitch env_404 req_ok w_empty"
  have r1: "fst ?ok = Ok200 ''http://svc/result/00ff'' ''00ff''"
    by (rule env_ok_run)
  have r2: "fst ?bad = ServerError500 ''Failed to download http://cdn/2.mp4 (HTTP 404)''"
    by (simp add: handler_defs env_404_def env_ok_def req_ok_def w_empty_def)
  have e1: "?ok = (fst ?ok, snd ?ok)" and e2: "?bad = (fst ?bad, snd ?bad)"
    by simp_all
  from result_entry_only_after_final_mux [OF e1] r1
  have "results (snd ?ok) = results_set (env_random_hex env_ok)
          \<lparr>filePath = final_path env_ok (env_random_hex env_ok),
             expiresAt = env_now env_ok + RESULT_TTL_MS\<rparr> (results w_empty)"
    by simp
  then have s1: "results (snd ?ok)
      = results_set ''00ff'' \<lparr>filePath = ''/tmp/final_00ff.mp4'', expiresAt = 1801000\<rparr> []"
    by (simp add: env_ok_def w_empty_def final_path_def path_join_def scratch_name_def
        RESULT_TTL_MS_def)
  from result_entry_only_after_final_mux [OF e2] r2
  have "results (snd ?bad) = results w_empty"
    by simp
  then have s2: "results (snd ?bad) = []" by (simp add: w_empty_def)
  from r1 r2 s1 s2 show ?thesis by simp
qed

subsection \<open>A program that cannot be started\<close>

text \<open>
  Claim C5, on the failing input. When ffmpeg cannot be spawned the child emits \<open>error\<close>.
  \<open>run\<close> of \<open>src/server.js\<close> has no listener for it: the event goes uncaught and the
  promise is never rejected with a launch failure. \<open>runFFmpeg\<close> of the current server
  rejects with the code and the message of the error.
\<close>

theorem old_invoker_has_no_error_listener:
  "run (events_of (NotStarted (Some ''ENOENT'') ''spawn ffmpeg ENOENT'' (- 2)))
     = Crashed (JsError ''Error'' ''spawn ffmpeg ENOENT'') \<and>
   runFFmpeg (events_of (NotStarted (Some ''ENOENT'') ''spawn ffmpeg ENOENT'' (- 2)))
     = Rejected (JsError ''Error'' ''spawn ffmpeg failed: ENOENT spawn ffmpeg ENOENT'')"
  by (simp add: run_launch_failure runFFmpeg_launch_failure)

text \<open>The same events, read off the theorem.\<close>

theorem old_invoker_has_no_error_listener_witness:
  "run [ErrorEvent (Some ''ENOENT'') ''spawn ffmpeg ENOENT'', CloseEvent (Some (- 2)) None]
     \<noteq> Rejected (JsError ''Error'' ''spawn ffmpeg failed: ENOENT spawn ffmpeg ENOENT'') \<and>
   runFFmpeg [ErrorEvent (Some ''ENOENT'') ''spawn ffmpeg ENOENT'', CloseEvent (Some (- 2)) None]
     = Rejected (JsError ''Error'' ''spawn ffmpeg failed: ENOENT spawn ffmpeg ENOENT'')"
  using old_invoker_has_no_error_listener by simp

subsection \<open>Success is exit code zero\<close>



subsection \<open>Entries of the list file\<close>

text \<open>
  Claim C7. The list file is three lines \<open>file '<path>'\<close>. In each path every single
  quote is replaced by quote, backslash, quote, quote, and every other character is
  kept; a path without a single quote is written as it is.
\<close>

theorem list_file_entries_are_quoted_and_escaped:
  "listTxt v1 v2 v3
     = ''file '' @ [sq] @ escape_quotes v1 @ [sq] @ nl
       @ ''file '' @ [sq] @ escape_quotes v2 @ [sq] @ nl
       @ ''file '' @ [sq] @ escape_quotes v3 @ [sq] @ nl \<and>
   escape_quotes [] = [] \<and>
   escape_quotes (p @ [sq] @ q) = escape_quotes p @ [sq, bs, sq, sq] @ escape_quotes q \<and>
   (c \<noteq> sq \<longrightarrow> escape_quotes (p @ [c] @ q) = escape_quotes p @ [c] @ escape_quotes q) \<and>
   (sq \<notin> set r \<longrightarrow> escape_quotes r = r)"
  by (simp add: listTxt_def list_line_def escape_quotes_append escape_quotes_simps
      escape_quotes_plain)

text \<open>The theorem at three paths, the second with a single quote in it.\<close>

theorem list_file_entries_are_quoted_and_escaped_witness:
  "listTxt ''/tmp/v1_0f.mp4'' (''/t'' @ [sq] @ ''mp/v2_0f.mp4'') ''/tmp/v3_0f.mp4''
     = ''file '' @ [sq] @ ''/tmp/v1_0f.mp4'' @ [sq] @ nl
       @ ''file '' @ [sq] @ ''/t'' @ [sq, bs, sq, sq] @ ''mp/v2_0f.mp4'' @ [sq] @ nl
       @ ''file '' @ [sq] @ ''/tmp/v3_0f.mp4'' @ [sq] @ nl"
proof -
  have plain: "sq \<notin> set ''/tmp/v1_0f.mp4''" "sq \<notin> set ''/tmp/v3_0f.mp4''"
    "sq \<notin> set ''/t''" "sq \<notin> set ''mp/v2_0f.mp4''"
    by (simp_all add: sq_def)
  from plain
    list_file_entries_are_quoted_and_escaped [of "''/tmp/v1_0f.mp4''"
      "''/t'' @ [sq] @ ''mp/v2_0f.mp4''" "''/tmp/v3_0f.mp4''" "''/t''" "''mp/v2_0f.mp4''" "CHR ''a''" "''/tmp/v1_0f.mp4''"]
    list_file_entries_are_quoted_and_escaped [of "''/tmp/v1_0f.mp4''"
      "''/t'' @ [sq] @ ''mp/v2_0f.mp4''" "''/tmp/v3_0f.mp4''" "''/t''" "''mp/v2_0f.mp4''" "CHR ''a''" "''/tmp/v3_0f.mp4''"]
    list_file_entries_are_quoted_and_escaped [of "''/tmp/v1_0f.mp4''"
      "''/t'' @ [sq] @ ''mp/v2_0f.mp4''" "''/tmp/v3_0f.mp4''" "''/t''" "''mp/v2_0f.mp4''" "CHR ''a''" "''/t''"]
    list_file_entries_are_quoted_and_escaped [of "''/tmp/v1_0f.mp4''"
      "''/t'' @ [sq] @ ''mp/v2_0f.mp4''" "''/tmp/v3_0f.mp4''" "''/t''" "''mp/v2_0f.mp4''" "CHR ''a''" "''mp/v2_0f.mp4''"]
  show ?thesis by simp
qed

subsection \<open>The resource fetcher\<close>

text \<open>
  Claim C8. \<open>downloadToTmp\<close> throws, and writes no file, when the status is not a success
  status and when the response has no body; it throws when the body ends in an error,
  and when \<open>fetch\<close> itself rejects. When it returns, the status was a success status,
  the body ended without an error, and the file at the returned path holds all its
  chunks.
\<close>

theorem fetcher_fails_without_success_status_or_body:
  "(env_fetch env (js_to_string url) fn = Response status body \<and> \<not> res_ok status \<longrightarrow>
      fst (downloadToTmp env url fn w)
        = Threw (JsError ''Error'' (''Failed to download '' @ js_to_string url
                   @ '' (HTTP '' @ decimal_nat status @ '')'')) \<and>
      files (snd (downloadToTmp env url fn w)) = files w) \<and>
   (env_fetch env (js_to_string url) fn = Response status None \<and> res_ok status \<longrightarrow>
      fst (downloadToTmp env url fn w)
        = Threw (JsError ''Error'' (''No response body for '' @ js_to_string url)) \<and>
      files (snd (downloadToTmp env url fn w)) = files w) \<and>
   (env_fetch env (js_to_string url) fn = Response status (Some (Body chunks (Some e))) \<longrightarrow>
      (\<exists>e'. fst (downloadToTmp env url fn w) = Threw e')) \<and>
   (env_fetch env (js_to_string url) fn = FetchFailed e \<longrightarrow>
      fst (downloadToTmp env url fn w) = Threw e) \<and>
   (\<forall>p w1. downloadToTmp env url fn w = (Done p, w1) \<longrightarrow>
      p = path_join (env_tmpdir env) fn \<and>
      (\<exists>st cs. env_fetch env (js_to_string url) fn = Response st (Some (Body cs None)) \<and>
         res_ok st \<and> files w1 p = Some (concat cs)))"
proof -
  have completed: "p = path_join (env_tmpdir env) fn \<and>
      (\<exists>st cs. env_fetch env (js_to_string url) fn = Response st (Some (Body cs None)) \<and>
         res_ok st \<and> files w1 p = Some (concat cs))"
    if "downloadToTmp env url fn w = (Done p, w1)" for p w1
    using downloadToTmp_Done [OF that] by auto
  show ?thesis
    using completed
    by (auto simp: downloadToTmp_def Let_def log_effect_def split: option.splits)
qed

text \<open>The theorem at a 404 and at a complete download.\<close>

theorem fetcher_fails_without_success_status_or_body_witness:
  "fst (downloadToTmp env_404 (JStr ''http://cdn/2.mp4'') ''v2_00ff.mp4'' w_empty)
     = Threw (JsError ''Error'' ''Failed to download http://cdn/2.mp4 (HTTP 404)'') \<and>
   fst (downloadToTmp env_ok (JStr ''http://cdn/1.mp4'') ''v1_00ff.mp4'' w_empty)
     = Done ''/tmp/v1_00ff.mp4'' \<and>
   files (snd (downloadToTmp env_ok (JStr ''http://cdn/1.mp4'') ''v1_00ff.mp4'' w_empty))
     ''/tmp/v1_00ff.mp4'' = Some ''abcd''"
proof -
  let ?bad = "downloadToTmp env_404 (JStr ''http://cdn/2.mp4'') ''v2_00ff.mp4'' w_empty"
  let ?good = "downloadToTmp env_ok (JStr ''http://cdn/1.mp4'') ''v1_00ff.mp4'' w_empty"
  have answer: "env_fetch env_404 (js_to_string (JStr ''http://cdn/2.mp4'')) ''v2_00ff.mp4''
      = Response 404 (Some (Body [] None))" and "\<not> res_ok 404"
    by (simp_all add: env_404_def env_ok_def res_ok_def)
  with fetcher_fails_without_success_status_or_body
      [of env_404 "JStr ''http://cdn/2.mp4''" "''v2_00ff.mp4''" 404 "Some (Body [] None)" w_empty]
  have "fst ?bad = Threw (JsError ''Error'' (''Failed to download '' @ js_to_string (JStr ''http://cdn/2.mp4'')
                   @ '' (HTTP '' @ decimal_nat 404 @ '')''))"
    by blast
  then have first: "fst ?bad = Threw (JsError ''Error'' ''Failed to download http://cdn/2.mp4 (HTTP 404)'')"
    by (simp add: decimal_404)
  have "fetch_succeeds env_ok (js_to_string (JStr ''http://cdn/1.mp4'')) ''v1_00ff.mp4''"
    by (simp add: fetch_succeeds_def env_ok_def res_ok_def)
  then have "fst ?good = Done (path_join (env_tmpdir env_ok) ''v1_00ff.mp4'')"
    by (rule downloadToTmp_succeeds)
  then have second: "fst ?good = Done ''/tmp/v1_00ff.mp4''"
    by (simp add: env_ok_def path_join_def)
  then have "?good = (Done ''/tmp/v1_00ff.mp4'', snd ?good)"
    by (simp add: prod_eq_iff)
  with fetcher_fails_without_success_status_or_body
      [of env_ok "JStr ''http://cdn/1.mp4''" "''v1_00ff.mp4''" 200 None w_empty]
  obtain st cs where "env_fetch env_ok (js_to_string (JStr ''http://cdn/1.mp4'')) ''v1_00ff.mp4''
        = Response st (Some (Body cs None))"
    and "files (snd ?good) ''/tmp/v1_00ff.mp4'' = Some (concat cs)"
    by blast
  moreover have "env_fetch env_ok (js_to_string (JStr ''http://cdn/1.mp4'')) ''v1_00ff.mp4''
        = Response 200 (Some (Body [''ab'', ''cd''] None))"
    by (simp add: env_ok_def)
  ultimately have third: "files (snd ?good) ''/tmp/v1_00ff.mp4'' = Some ''abcd''"
    by simp
  from first second third show ?thesis by simp
qed

subsection \<open>The two spellings of the request fields\<close>



subsection \<open>Retrieval reads only\<close>

text \<open>
  Claim C10. A retrieval returns the state it was given: no entry is removed, no expiry
  time or file path altered; so does any sequence of retrievals. For an entry whose file
  is on disk, any number of retrievals made after sweeps that all ran before its expiry
  time stream the same file from the same path.
\<close>

theorem retrieval_leaves_the_store_alone:
  "snd (get_result ident w) = w \<and> snd (get_many ids w) = w \<and>
   (store_ok tmp w \<longrightarrow> results_get (results w) ident = Some meta \<longrightarrow>
    files w (filePath meta) = Some bytes \<longrightarrow> (\<forall>t \<in> set ts. t < expiresAt meta) \<longrightarrow>
      get_many (replicate n ident) (sweeps ts w)
        = (replicate n (Stream200 (''final_'' @ ident @ ''.mp4'') (filePath meta) bytes),
           sweeps ts w))"
proof -
  have "get_many (replicate n ident) (sweeps ts w)
        = (replicate n (Stream200 (''final_'' @ ident @ ''.mp4'') (filePath meta) bytes), sweeps ts w)"
    if ok: "store_ok tmp w" and entry: "results_get (results w) ident = Some meta"
      and onDisk: "files w (filePath meta) = Some bytes" and live: "\<forall>t \<in> set ts. t < expiresAt meta"
  proof -
    from ok have d: "distinct (map fst (results w))" by (simp add: store_ok_def)
    from live d entry have "results_get (results (sweeps ts w)) ident = Some meta"
      by (simp add: sweeps_live)
    moreover from live ok entry onDisk have "files (sweeps ts w) (filePath meta) = Some bytes"
      by (simp add: sweeps_live_file)
    ultimately have "fst (get_result ident (sweeps ts w))
        = Stream200 (''final_'' @ ident @ ''.mp4'') (filePath meta) bytes"
      by (simp add: get_result_def)
    then show ?thesis by (simp add: get_many_frame map_replicate_const)
  qed
  then show ?thesis by (simp add: get_result_world get_many_frame)
qed

text \<open>The theorem at the store of two entries, three retrievals after one sweep.\<close>

theorem retrieval_leaves_the_store_alone_witness:
  "snd (get_result ''00ff'' w_pub) = w_pub \<and>
   snd (get_many [''00ff'', ''ffff'', ''00ff''] w_pub) = w_pub \<and>
   get_many (replicate 3 ''00ff'') (sweeps [1741000] w_pub)
     = (replicate 3 (Stream200 ''final_00ff.mp4'' ''/tmp/final_00ff.mp4'' ''mp4''),
        sweeps [1741000] w_pub)"
  using retrieval_leaves_the_store_alone [of "''00ff''" w_pub "[''00ff'', ''ffff'', ''00ff'']"
      "''/tmp''" "\<lparr>filePath = ''/tmp/final_00ff.mp4'', expiresAt = 1801000\<rparr>" "''mp4''" "[1741000]" 3]
    w_pub_facts
  by simp

end
